theory Spec2Isabelle
  imports Main
begin

section \<open>Data model: the tables of the PostgreSQL backend\<close>

text \<open>
  The tables are those created by migration 1.  A table is the list of its rows in
  insertion order, together with the counter of its \<^verbatim>\<open>SERIAL\<close> id column.  Nullable
  columns are options (\<open>None\<close> is SQL \<^verbatim>\<open>NULL\<close>).  \<^verbatim>\<open>INTEGER\<close> and \<^verbatim>\<open>BIGINT\<close> columns and
  JavaScript numbers are unbounded integers: the values the code handles (epoch
  milliseconds, retry counters, prompt numbers) are taken to be whole numbers within the
  range of their column.  \<^verbatim>\<open>JSONB\<close> and \<^verbatim>\<open>TIMESTAMPTZ\<close> columns hold their text, taken to be
  well formed.  The derived \<^verbatim>\<open>search_vector\<close> columns are left out.
\<close>

datatype message_status = Pending | Processing | Processed | Failed

datatype message_type = Observation | Summarize

record pending_message =
  pm_id :: int
  pm_session_db_id :: int
  pm_claude_session_id :: string
  pm_message_type :: message_type
  pm_tool_name :: "string option"
  pm_tool_input :: "string option"
  pm_tool_response :: "string option"
  pm_cwd :: "string option"
  pm_last_user_message :: "string option"
  pm_last_assistant_message :: "string option"
  pm_prompt_number :: "int option"
  pm_status :: message_status
  pm_retry_count :: int
  pm_created_at_epoch :: int
  pm_started_processing_at_epoch :: "int option"
  pm_completed_at_epoch :: "int option"

record sdk_session =
  ss_id :: int
  ss_claude_session_id :: string
  ss_sdk_session_id :: "string option"
  ss_project :: string
  ss_user_id :: "string option"
  ss_user_prompt :: "string option"
  ss_started_at :: string
  ss_started_at_epoch :: int
  ss_completed_at :: "string option"
  ss_completed_at_epoch :: "int option"
  ss_status :: string
  ss_worker_port :: "int option"
  ss_prompt_counter :: int

record observation =
  ob_id :: int
  ob_sdk_session_id :: string
  ob_project :: string
  ob_user_id :: "string option"
  ob_text :: "string option"
  ob_type :: string
  ob_title :: "string option"
  ob_subtitle :: "string option"
  ob_facts :: "string option"
  ob_narrative :: "string option"
  ob_concepts :: "string option"
  ob_files_read :: "string option"
  ob_files_modified :: "string option"
  ob_prompt_number :: "int option"
  ob_discovery_tokens :: int
  ob_created_at :: string
  ob_created_at_epoch :: int

record session_summary =
  sm_id :: int
  sm_sdk_session_id :: string
  sm_project :: string
  sm_user_id :: "string option"
  sm_request :: "string option"
  sm_investigated :: "string option"
  sm_learned :: "string option"
  sm_completed :: "string option"
  sm_next_steps :: "string option"
  sm_files_read :: "string option"
  sm_files_edited :: "string option"
  sm_notes :: "string option"
  sm_prompt_number :: "int option"
  sm_discovery_tokens :: int
  sm_created_at :: string
  sm_created_at_epoch :: int

record user_prompt =
  up_id :: int
  up_claude_session_id :: string
  up_user_id :: "string option"
  up_prompt_number :: int
  up_prompt_text :: string
  up_created_at :: string
  up_created_at_epoch :: int

record database =
  sdk_sessions :: "sdk_session list"
  sdk_sessions_id_seq :: int
  observations :: "observation list"
  observations_id_seq :: int
  session_summaries :: "session_summary list"
  session_summaries_id_seq :: int
  user_prompts :: "user_prompt list"
  user_prompts_id_seq :: int
  pending_messages :: "pending_message list"
  pending_messages_id_seq :: int

text \<open>
  A statement that violates a constraint of the schema is rejected by the server and
  \<^verbatim>\<open>query\<close> rethrows; the store's methods do not catch, so the error reaches the caller.
\<close>

datatype storage_error =
    UniqueViolation string
  | ForeignKeyViolation string
  | CheckViolation string
  | NegativeLimit
  | StatementRejected string

subsection \<open>SQL statements on a table\<close>

text \<open>\<^verbatim>\<open>UPDATE t SET ... WHERE cond\<close>: every row that satisfies the condition is rewritten.\<close>

definition sql_update :: "('r \<Rightarrow> bool) \<Rightarrow> ('r \<Rightarrow> 'r) \<Rightarrow> 'r list \<Rightarrow> 'r list" where
  "sql_update cond upd rows = map (\<lambda>r. if cond r then upd r else r) rows"

text \<open>The \<^verbatim>\<open>rowCount\<close> of an \<^verbatim>\<open>UPDATE\<close> or \<^verbatim>\<open>DELETE\<close>: the number of rows that matched.\<close>

definition row_count :: "('r \<Rightarrow> bool) \<Rightarrow> 'r list \<Rightarrow> nat" where
  "row_count cond rows = length (filter cond rows)"

text \<open>
  SQL comparison with a nullable operand: a comparison with \<^verbatim>\<open>NULL\<close> is unknown, and a
  \<^verbatim>\<open>WHERE\<close> clause keeps a row only when its condition is true.
\<close>

definition sql_lt :: "int option \<Rightarrow> int \<Rightarrow> bool" where
  "sql_lt col v = (case col of None \<Rightarrow> False | Some c \<Rightarrow> c < v)"

definition sql_eq :: "'a option \<Rightarrow> 'a option \<Rightarrow> bool" where
  "sql_eq col v = (case (col, v) of (Some c, Some w) \<Rightarrow> c = w | _ \<Rightarrow> False)"

section \<open>The work queue (PostgresPendingMessageStore)\<close>

text \<open>
  The message handed to \<^verbatim>\<open>enqueue\<close>.  \<open>msg_tool_input\<close> and \<open>msg_tool_response\<close> hold the
  text \<^verbatim>\<open>JSON.stringify\<close> gives for a truthy payload, and \<open>None\<close> for a falsy one.
\<close>

record PendingMessage =
  msg_type :: message_type
  msg_tool_name :: "string option"
  msg_tool_input :: "string option"
  msg_tool_response :: "string option"
  msg_cwd :: "string option"
  msg_last_user_message :: "string option"
  msg_last_assistant_message :: "string option"
  msg_prompt_number :: "int option"

text \<open>JavaScript's \<^verbatim>\<open>s || null\<close> on an optional string: the empty string is falsy.\<close>

definition str_or_null :: "string option \<Rightarrow> string option" where
  "str_or_null s = (case s of None \<Rightarrow> None | Some x \<Rightarrow> if x = [] then None else Some x)"

text \<open>\<^verbatim>\<open>n || null\<close> on an optional number: zero is falsy.\<close>

definition num_or_null :: "int option \<Rightarrow> int option" where
  "num_or_null n = (case n of None \<Rightarrow> None | Some x \<Rightarrow> if x = 0 then None else Some x)"

text \<open>
  \<^verbatim>\<open>enqueue\<close>: one \<^verbatim>\<open>INSERT ... RETURNING id\<close>.  The id is drawn from the sequence, which
  advances whether or not the row is accepted; the row is rejected when its id is
  already taken or when no session has the id \<open>sessionDbId\<close> (the foreign key).
\<close>

definition enqueue ::
  "int \<Rightarrow> int \<Rightarrow> string \<Rightarrow> PendingMessage \<Rightarrow> database \<Rightarrow> (storage_error + int) \<times> database" where
  "enqueue now sessionDbId claudeSessionId message db =
     (let new_id = pending_messages_id_seq db;
          db' = db\<lparr>pending_messages_id_seq := new_id + 1\<rparr>;
          row = \<lparr>pm_id = new_id,
                 pm_session_db_id = sessionDbId,
                 pm_claude_session_id = claudeSessionId,
                 pm_message_type = msg_type message,
                 pm_tool_name = str_or_null (msg_tool_name message),
                 pm_tool_input = msg_tool_input message,
                 pm_tool_response = msg_tool_response message,
                 pm_cwd = str_or_null (msg_cwd message),
                 pm_last_user_message = str_or_null (msg_last_user_message message),
                 pm_last_assistant_message = str_or_null (msg_last_assistant_message message),
                 pm_prompt_number = num_or_null (msg_prompt_number message),
                 pm_status = Pending,
                 pm_retry_count = 0,
                 pm_created_at_epoch = now,
                 pm_started_processing_at_epoch = None,
                 pm_completed_at_epoch = None\<rparr>
      in if new_id \<in> set (map pm_id (pending_messages db))
         then (Inl (UniqueViolation ''pending_messages_pkey''), db')
         else if sessionDbId \<notin> set (map ss_id (sdk_sessions db))
         then (Inl (ForeignKeyViolation ''pending_messages_session_db_id_fkey''), db')
         else (Inr new_id, db'\<lparr>pending_messages := pending_messages db @ [row]\<rparr>))"

text \<open>The row of a job, as \<^verbatim>\<open>SELECT * FROM pending_messages WHERE id = $1\<close> gives it.\<close>

definition get_message :: "database \<Rightarrow> int \<Rightarrow> pending_message option" where
  "get_message db messageId = find (\<lambda>m. pm_id m = messageId) (pending_messages db)"

definition retryMessage :: "int \<Rightarrow> database \<Rightarrow> bool \<times> database" where
  "retryMessage messageId db =
     (let cond = (\<lambda>m. pm_id m = messageId \<and> pm_status m \<in> {Pending, Processing, Failed})
      in (row_count cond (pending_messages db) > 0,
          db\<lparr>pending_messages :=
               sql_update cond
                 (\<lambda>m. m\<lparr>pm_status := Pending, pm_started_processing_at_epoch := None\<rparr>)
                 (pending_messages db)\<rparr>))"

definition resetProcessingToPending :: "int \<Rightarrow> database \<Rightarrow> nat \<times> database" where
  "resetProcessingToPending sessionDbId db =
     (let cond = (\<lambda>m. pm_session_db_id m = sessionDbId \<and> pm_status m = Processing)
      in (row_count cond (pending_messages db),
          db\<lparr>pending_messages :=
               sql_update cond
                 (\<lambda>m. m\<lparr>pm_status := Pending, pm_started_processing_at_epoch := None\<rparr>)
                 (pending_messages db)\<rparr>))"

text \<open>\<^verbatim>\<open>DELETE FROM t WHERE cond\<close>: the rows that satisfy the condition are removed.\<close>

definition sql_delete :: "('r \<Rightarrow> bool) \<Rightarrow> 'r list \<Rightarrow> 'r list" where
  "sql_delete cond rows = filter (\<lambda>r. \<not> cond r) rows"

definition abortMessage :: "int \<Rightarrow> database \<Rightarrow> bool \<times> database" where
  "abortMessage messageId db =
     (let cond = (\<lambda>m. pm_id m = messageId)
      in (row_count cond (pending_messages db) > 0,
          db\<lparr>pending_messages := sql_delete cond (pending_messages db)\<rparr>))"

definition retryAllStuck :: "int \<Rightarrow> int \<Rightarrow> database \<Rightarrow> nat \<times> database" where
  "retryAllStuck now thresholdMs db =
     (let cutoff = now - thresholdMs;
          cond = (\<lambda>m. pm_status m = Processing \<and> sql_lt (pm_started_processing_at_epoch m) cutoff)
      in (row_count cond (pending_messages db),
          db\<lparr>pending_messages :=
               sql_update cond
                 (\<lambda>m. m\<lparr>pm_status := Pending, pm_started_processing_at_epoch := None\<rparr>)
                 (pending_messages db)\<rparr>))"

definition markProcessing :: "int \<Rightarrow> int \<Rightarrow> database \<Rightarrow> database" where
  "markProcessing now messageId db =
     db\<lparr>pending_messages :=
          sql_update (\<lambda>m. pm_id m = messageId \<and> pm_status m = Pending)
            (\<lambda>m. m\<lparr>pm_status := Processing, pm_started_processing_at_epoch := Some now\<rparr>)
            (pending_messages db)\<rparr>"

definition markProcessed :: "int \<Rightarrow> int \<Rightarrow> database \<Rightarrow> database" where
  "markProcessed now messageId db =
     db\<lparr>pending_messages :=
          sql_update (\<lambda>m. pm_id m = messageId \<and> pm_status m = Processing)
            (\<lambda>m. m\<lparr>pm_status := Processed,
                    pm_completed_at_epoch := Some now,
                    pm_tool_input := None,
                    pm_tool_response := None\<rparr>)
            (pending_messages db)\<rparr>"

text \<open>
  \<^verbatim>\<open>markFailed\<close> reads the retry count of the first row with the id, returns when there is
  none, and otherwise runs one of two updates, neither of which looks at the status.
\<close>

definition markFailed :: "int \<Rightarrow> int \<Rightarrow> int \<Rightarrow> database \<Rightarrow> database" where
  "markFailed maxRetries now messageId db =
     (case filter (\<lambda>m. pm_id m = messageId) (pending_messages db) of
        [] \<Rightarrow> db
      | msg # _ \<Rightarrow>
          if pm_retry_count msg < maxRetries
          then db\<lparr>pending_messages :=
                    sql_update (\<lambda>m. pm_id m = messageId)
                      (\<lambda>m. m\<lparr>pm_status := Pending,
                              pm_retry_count := pm_retry_count m + 1,
                              pm_started_processing_at_epoch := None\<rparr>)
                      (pending_messages db)\<rparr>
          else db\<lparr>pending_messages :=
                    sql_update (\<lambda>m. pm_id m = messageId)
                      (\<lambda>m. m\<lparr>pm_status := Failed, pm_completed_at_epoch := Some now\<rparr>)
                      (pending_messages db)\<rparr>)"

definition resetStuckMessages :: "int \<Rightarrow> int \<Rightarrow> database \<Rightarrow> nat \<times> database" where
  "resetStuckMessages now thresholdMs db =
     (let cutoff = (if thresholdMs = 0 then now else now - thresholdMs);
          cond = (\<lambda>m. pm_status m = Processing \<and> sql_lt (pm_started_processing_at_epoch m) cutoff)
      in (row_count cond (pending_messages db),
          db\<lparr>pending_messages :=
               sql_update cond
                 (\<lambda>m. m\<lparr>pm_status := Pending, pm_started_processing_at_epoch := None\<rparr>)
                 (pending_messages db)\<rparr>))"

text \<open>
  \<^verbatim>\<open>ORDER BY key DESC\<close> on a nullable column: the server puts the rows whose key is null
  first.
\<close>

definition order_by_desc_nulls_first :: "('r \<Rightarrow> int option) \<Rightarrow> 'r list \<Rightarrow> 'r list" where
  "order_by_desc_nulls_first key rows =
     filter (\<lambda>r. key r = None) rows
     @ rev (sort_key (\<lambda>r. case key r of Some t \<Rightarrow> t | None \<Rightarrow> 0)
                     (filter (\<lambda>r. key r \<noteq> None) rows))"

text \<open>
  \<^verbatim>\<open>cleanupProcessed\<close> deletes the processed rows whose id is not among those of the
  \<open>retentionCount\<close> processed rows completed last.  A negative \<^verbatim>\<open>LIMIT\<close> is rejected.
\<close>

definition cleanupProcessed :: "int \<Rightarrow> database \<Rightarrow> (storage_error + nat) \<times> database" where
  "cleanupProcessed retentionCount db =
     (if retentionCount < 0 then (Inl NegativeLimit, db)
      else
        let kept = map pm_id
                     (take (nat retentionCount)
                        (order_by_desc_nulls_first pm_completed_at_epoch
                           (filter (\<lambda>m. pm_status m = Processed) (pending_messages db))));
            cond = (\<lambda>m. pm_status m = Processed \<and> pm_id m \<notin> set kept)
        in (Inr (row_count cond (pending_messages db)),
            db\<lparr>pending_messages := sql_delete cond (pending_messages db)\<rparr>))"

section \<open>The session store (PostgresSessionStore)\<close>

subsection \<open>Session creation\<close>

text \<open>
  \<^verbatim>\<open>createSDKSession\<close> is one \<^verbatim>\<open>INSERT ... ON CONFLICT (claude_session_id) DO UPDATE ...
  RETURNING id\<close>.  The arguments \<open>now\<close>, \<open>nowEpoch\<close> and \<open>userId\<close> stand for
  \<^verbatim>\<open>new Date().toISOString()\<close>, \<^verbatim>\<open>getTime()\<close> and \<^verbatim>\<open>getUserId()\<close>.  The proposed row draws
  its id from the sequence before the conflict is looked for.  When a row with the same
  \<^verbatim>\<open>claude_session_id\<close> exists the update runs on it and its id is returned; otherwise
  the row is inserted, unless its id or its \<^verbatim>\<open>sdk_session_id\<close> (also unique) is taken.
\<close>

definition createSDKSession ::
  "string \<Rightarrow> int \<Rightarrow> string \<Rightarrow> string \<Rightarrow> string \<Rightarrow> string \<Rightarrow> database
     \<Rightarrow> (storage_error + int) \<times> database" where
  "createSDKSession now nowEpoch userId claudeSessionId project userPrompt db =
     (let new_id = sdk_sessions_id_seq db;
          db' = db\<lparr>sdk_sessions_id_seq := new_id + 1\<rparr>;
          row = \<lparr>ss_id = new_id,
                 ss_claude_session_id = claudeSessionId,
                 ss_sdk_session_id = Some claudeSessionId,
                 ss_project = project,
                 ss_user_id = Some userId,
                 ss_user_prompt = Some userPrompt,
                 ss_started_at = now,
                 ss_started_at_epoch = nowEpoch,
                 ss_completed_at = None,
                 ss_completed_at_epoch = None,
                 ss_status = ''active'',
                 ss_worker_port = None,
                 ss_prompt_counter = 0\<rparr>
      in case filter (\<lambda>s. ss_claude_session_id s = claudeSessionId) (sdk_sessions db) of
           existing # _ \<Rightarrow>
             (Inr (ss_id existing),
              db'\<lparr>sdk_sessions :=
                   sql_update (\<lambda>s. ss_claude_session_id s = claudeSessionId)
                     (\<lambda>s. s\<lparr>ss_project := (if ss_project s = [] then project else ss_project s),
                             ss_user_prompt := Some userPrompt\<rparr>)
                     (sdk_sessions db)\<rparr>)
         | [] \<Rightarrow>
             if new_id \<in> set (map ss_id (sdk_sessions db))
             then (Inl (UniqueViolation ''sdk_sessions_pkey''), db')
             else if Some claudeSessionId \<in> set (map ss_sdk_session_id (sdk_sessions db))
             then (Inl (UniqueViolation ''sdk_sessions_sdk_session_id_key''), db')
             else (Inr new_id, db'\<lparr>sdk_sessions := sdk_sessions db @ [row]\<rparr>))"

definition get_session :: "database \<Rightarrow> string \<Rightarrow> sdk_session option" where
  "get_session db claudeSessionId =
     find (\<lambda>s. ss_claude_session_id s = claudeSessionId) (sdk_sessions db)"

subsection \<open>Timeline\<close>

text \<open>
  The optional \<^verbatim>\<open>project\<close> argument adds \<^verbatim>\<open>AND project = $2\<close> to a boundary query only
  when it is truthy: \<^verbatim>\<open>undefined\<close> (\<open>None\<close>) and the empty string add no condition.
\<close>

definition project_filter :: "string option \<Rightarrow> string \<Rightarrow> bool" where
  "project_filter project col =
     (case project of None \<Rightarrow> True | Some p \<Rightarrow> if p = [] then True else col = p)"

text \<open>
  \<^verbatim>\<open>ORDER BY key ASC\<close> and \<^verbatim>\<open>DESC\<close>.  SQL leaves the order of rows with equal keys open;
  here they keep, respectively reverse, their order in the table.
\<close>

definition order_by_asc :: "('r \<Rightarrow> int) \<Rightarrow> 'r list \<Rightarrow> 'r list" where
  "order_by_asc key rows = sort_key key rows"

definition order_by_desc :: "('r \<Rightarrow> int) \<Rightarrow> 'r list \<Rightarrow> 'r list" where
  "order_by_desc key rows = rev (sort_key key rows)"

record timeline =
  tl_observations :: "observation list"
  tl_sessions :: "session_summary list"
  tl_prompts :: "(user_prompt \<times> string \<times> string option) list"

text \<open>
  The rows of \<^verbatim>\<open>user_prompts up JOIN sdk_sessions s ON up.claude_session_id =
  s.claude_session_id\<close>, as \<^verbatim>\<open>up.*, s.project, s.sdk_session_id\<close>.
\<close>

definition prompts_join_sessions :: "database \<Rightarrow> (user_prompt \<times> string \<times> string option) list" where
  "prompts_join_sessions db =
     concat (map (\<lambda>up. map (\<lambda>s. (up, ss_project s, ss_sdk_session_id s))
                          (filter (\<lambda>s. ss_claude_session_id s = up_claude_session_id up)
                                  (sdk_sessions db)))
                 (user_prompts db))"

text \<open>
  \<^verbatim>\<open>getTimelineAroundObservation\<close>.  The anchor observation id is not used by this backend.
  A negative \<^verbatim>\<open>LIMIT\<close> is rejected by the server.  The two boundary queries both include
  the anchor epoch itself (\<^verbatim>\<open><=\<close> and \<^verbatim>\<open>>=\<close>); the first is limited to \<open>depthBefore\<close> rows,
  the second to \<open>depthAfter + 1\<close>.

  The window queries on observations and summaries reuse the text \<^verbatim>\<open>AND project = $2\<close> of
  the boundary queries, but their parameters are the start epoch, the end epoch and then
  the project: with a project, \<^verbatim>\<open>$2\<close> is the end epoch, compared both with the
  \<^verbatim>\<open>BIGINT\<close> column \<^verbatim>\<open>created_at_epoch\<close> and with the \<^verbatim>\<open>TEXT\<close> column \<^verbatim>\<open>project\<close>, and the
  server rejects the statement.  Without a project no condition is added.
\<close>

definition truthy_project :: "string option \<Rightarrow> bool" where
  "truthy_project project = (case project of None \<Rightarrow> False | Some p \<Rightarrow> p \<noteq> [])"

definition getTimelineAroundObservation ::
  "database \<Rightarrow> int option \<Rightarrow> int \<Rightarrow> int \<Rightarrow> int \<Rightarrow> string option \<Rightarrow> storage_error + timeline" where
  "getTimelineAroundObservation db anchorObservationId anchorEpoch depthBefore depthAfter project =
     (if depthBefore < 0 then Inl NegativeLimit
      else
        let beforeResult =
              take (nat depthBefore)
                (order_by_desc (\<lambda>e. e)
                   (map ob_created_at_epoch
                      (filter (\<lambda>ob. ob_created_at_epoch ob \<le> anchorEpoch
                                     \<and> project_filter project (ob_project ob))
                              (observations db))))
        in if depthAfter + 1 < 0 then Inl NegativeLimit
           else
             let afterResult =
                   take (nat (depthAfter + 1))
                     (order_by_asc (\<lambda>e. e)
                        (map ob_created_at_epoch
                           (filter (\<lambda>ob. ob_created_at_epoch ob \<ge> anchorEpoch
                                          \<and> project_filter project (ob_project ob))
                                   (observations db))))
             in if beforeResult = [] \<and> afterResult = []
                then Inr \<lparr>tl_observations = [], tl_sessions = [], tl_prompts = []\<rparr>
                else
                  let startEpoch = (if beforeResult \<noteq> [] then last beforeResult else anchorEpoch);
                      endEpoch = (if afterResult \<noteq> [] then last afterResult else anchorEpoch)
                  in if truthy_project project
                     then Inl (StatementRejected ''operator does not exist: text = bigint'')
                     else
                       let obsResult =
                             order_by_asc ob_created_at_epoch
                               (filter (\<lambda>ob. ob_created_at_epoch ob \<ge> startEpoch
                                              \<and> ob_created_at_epoch ob \<le> endEpoch)
                                       (observations db));
                           sessResult =
                             order_by_asc sm_created_at_epoch
                               (filter (\<lambda>sm. sm_created_at_epoch sm \<ge> startEpoch
                                              \<and> sm_created_at_epoch sm \<le> endEpoch)
                                       (session_summaries db));
                           promptResult =
                             order_by_asc (\<lambda>(up, p, sid). up_created_at_epoch up)
                               (filter (\<lambda>(up, p, sid). up_created_at_epoch up \<ge> startEpoch
                                              \<and> up_created_at_epoch up \<le> endEpoch)
                                       (prompts_join_sessions db))
                       in Inr \<lparr>tl_observations = obsResult,
                               tl_sessions = sessResult,
                               tl_prompts = promptResult\<rparr>)"

subsection \<open>Import operations\<close>

record import_result =
  imported :: bool
  row_id :: int

record sdk_session_import =
  si_claude_session_id :: string
  si_sdk_session_id :: string
  si_project :: string
  si_user_prompt :: string
  si_started_at :: string
  si_started_at_epoch :: int
  si_completed_at :: "string option"
  si_completed_at_epoch :: "int option"
  si_status :: string

record session_summary_import =
  mi_sdk_session_id :: string
  mi_project :: string
  mi_request :: "string option"
  mi_investigated :: "string option"
  mi_learned :: "string option"
  mi_completed :: "string option"
  mi_next_steps :: "string option"
  mi_files_read :: "string option"
  mi_files_edited :: "string option"
  mi_notes :: "string option"
  mi_prompt_number :: "int option"
  mi_discovery_tokens :: int
  mi_created_at :: string
  mi_created_at_epoch :: int

record observation_import =
  oi_sdk_session_id :: string
  oi_project :: string
  oi_text :: "string option"
  oi_type :: string
  oi_title :: "string option"
  oi_subtitle :: "string option"
  oi_facts :: "string option"
  oi_narrative :: "string option"
  oi_concepts :: "string option"
  oi_files_read :: "string option"
  oi_files_modified :: "string option"
  oi_prompt_number :: "int option"
  oi_discovery_tokens :: int
  oi_created_at :: string
  oi_created_at_epoch :: int

record user_prompt_import =
  pi_claude_session_id :: string
  pi_prompt_number :: int
  pi_prompt_text :: string
  pi_created_at :: string
  pi_created_at_epoch :: int

text \<open>\<^verbatim>\<open>n || 0\<close> on a number.\<close>

definition num_or_zero :: "int \<Rightarrow> int" where
  "num_or_zero n = (if n = 0 then 0 else n)"

definition session_statuses :: "string list" where
  "session_statuses = [''active'', ''completed'', ''failed'']"

definition observation_types :: "string list" where
  "observation_types = [''decision'', ''bugfix'', ''feature'', ''refactor'', ''discovery'', ''change'']"

text \<open>
  Each import runs a \<^verbatim>\<open>SELECT id\<close> on its key and returns the first row found; only when
  there is none does it run the \<^verbatim>\<open>INSERT ... RETURNING id\<close>.  An insert is rejected by the
  \<^verbatim>\<open>CHECK\<close>, primary key, \<^verbatim>\<open>UNIQUE\<close> and foreign key constraints of its table.
\<close>

definition importSdkSession ::
  "sdk_session_import \<Rightarrow> database \<Rightarrow> (storage_error + import_result) \<times> database" where
  "importSdkSession session db =
     (case filter (\<lambda>s. ss_claude_session_id s = si_claude_session_id session) (sdk_sessions db) of
        existing # _ \<Rightarrow> (Inr \<lparr>imported = False, row_id = ss_id existing\<rparr>, db)
      | [] \<Rightarrow>
          let new_id = sdk_sessions_id_seq db;
              db' = db\<lparr>sdk_sessions_id_seq := new_id + 1\<rparr>;
              row = \<lparr>ss_id = new_id,
                     ss_claude_session_id = si_claude_session_id session,
                     ss_sdk_session_id = Some (si_sdk_session_id session),
                     ss_project = si_project session,
                     ss_user_id = None,
                     ss_user_prompt = Some (si_user_prompt session),
                     ss_started_at = si_started_at session,
                     ss_started_at_epoch = si_started_at_epoch session,
                     ss_completed_at = si_completed_at session,
                     ss_completed_at_epoch = si_completed_at_epoch session,
                     ss_status = si_status session,
                     ss_worker_port = None,
                     ss_prompt_counter = 0\<rparr>
          in if si_status session \<notin> set session_statuses
             then (Inl (CheckViolation ''sdk_sessions_status_check''), db')
             else if new_id \<in> set (map ss_id (sdk_sessions db))
             then (Inl (UniqueViolation ''sdk_sessions_pkey''), db')
             else if Some (si_sdk_session_id session) \<in> set (map ss_sdk_session_id (sdk_sessions db))
             then (Inl (UniqueViolation ''sdk_sessions_sdk_session_id_key''), db')
             else (Inr \<lparr>imported = True, row_id = new_id\<rparr>,
                   db'\<lparr>sdk_sessions := sdk_sessions db @ [row]\<rparr>))"

definition importSessionSummary ::
  "session_summary_import \<Rightarrow> database \<Rightarrow> (storage_error + import_result) \<times> database" where
  "importSessionSummary summary db =
     (case filter (\<lambda>r. sm_sdk_session_id r = mi_sdk_session_id summary) (session_summaries db) of
        existing # _ \<Rightarrow> (Inr \<lparr>imported = False, row_id = sm_id existing\<rparr>, db)
      | [] \<Rightarrow>
          let new_id = session_summaries_id_seq db;
              db' = db\<lparr>session_summaries_id_seq := new_id + 1\<rparr>;
              row = \<lparr>sm_id = new_id,
                     sm_sdk_session_id = mi_sdk_session_id summary,
                     sm_project = mi_project summary,
                     sm_user_id = None,
                     sm_request = mi_request summary,
                     sm_investigated = mi_investigated summary,
                     sm_learned = mi_learned summary,
                     sm_completed = mi_completed summary,
                     sm_next_steps = mi_next_steps summary,
                     sm_files_read = mi_files_read summary,
                     sm_files_edited = mi_files_edited summary,
                     sm_notes = mi_notes summary,
                     sm_prompt_number = mi_prompt_number summary,
                     sm_discovery_tokens = num_or_zero (mi_discovery_tokens summary),
                     sm_created_at = mi_created_at summary,
                     sm_created_at_epoch = mi_created_at_epoch summary\<rparr>
          in if new_id \<in> set (map sm_id (session_summaries db))
             then (Inl (UniqueViolation ''session_summaries_pkey''), db')
             else if Some (mi_sdk_session_id summary) \<notin> set (map ss_sdk_session_id (sdk_sessions db))
             then (Inl (ForeignKeyViolation ''session_summaries_sdk_session_id_fkey''), db')
             else (Inr \<lparr>imported = True, row_id = new_id\<rparr>,
                   db'\<lparr>session_summaries := session_summaries db @ [row]\<rparr>))"

text \<open>
  The key of an observation compares the nullable \<^verbatim>\<open>title\<close> column with the title handed
  in by \<^verbatim>\<open>title = $2\<close>, an SQL comparison.
\<close>

definition importObservation ::
  "observation_import \<Rightarrow> database \<Rightarrow> (storage_error + import_result) \<times> database" where
  "importObservation obs db =
     (case filter (\<lambda>r. ob_sdk_session_id r = oi_sdk_session_id obs
                        \<and> sql_eq (ob_title r) (oi_title obs)
                        \<and> ob_created_at_epoch r = oi_created_at_epoch obs) (observations db) of
        existing # _ \<Rightarrow> (Inr \<lparr>imported = False, row_id = ob_id existing\<rparr>, db)
      | [] \<Rightarrow>
          let new_id = observations_id_seq db;
              db' = db\<lparr>observations_id_seq := new_id + 1\<rparr>;
              row = \<lparr>ob_id = new_id,
                     ob_sdk_session_id = oi_sdk_session_id obs,
                     ob_project = oi_project obs,
                     ob_user_id = None,
                     ob_text = oi_text obs,
                     ob_type = oi_type obs,
                     ob_title = oi_title obs,
                     ob_subtitle = oi_subtitle obs,
                     ob_facts = oi_facts obs,
                     ob_narrative = oi_narrative obs,
                     ob_concepts = oi_concepts obs,
                     ob_files_read = oi_files_read obs,
                     ob_files_modified = oi_files_modified obs,
                     ob_prompt_number = oi_prompt_number obs,
                     ob_discovery_tokens = num_or_zero (oi_discovery_tokens obs),
                     ob_created_at = oi_created_at obs,
                     ob_created_at_epoch = oi_created_at_epoch obs\<rparr>
          in if oi_type obs \<notin> set observation_types
             then (Inl (CheckViolation ''observations_type_check''), db')
             else if new_id \<in> set (map ob_id (observations db))
             then (Inl (UniqueViolation ''observations_pkey''), db')
             else if Some (oi_sdk_session_id obs) \<notin> set (map ss_sdk_session_id (sdk_sessions db))
             then (Inl (ForeignKeyViolation ''observations_sdk_session_id_fkey''), db')
             else (Inr \<lparr>imported = True, row_id = new_id\<rparr>,
                   db'\<lparr>observations := observations db @ [row]\<rparr>))"

definition importUserPrompt ::
  "user_prompt_import \<Rightarrow> database \<Rightarrow> (storage_error + import_result) \<times> database" where
  "importUserPrompt prompt db =
     (case filter (\<lambda>r. up_claude_session_id r = pi_claude_session_id prompt
                        \<and> up_prompt_number r = pi_prompt_number prompt) (user_prompts db) of
        existing # _ \<Rightarrow> (Inr \<lparr>imported = False, row_id = up_id existing\<rparr>, db)
      | [] \<Rightarrow>
          let new_id = user_prompts_id_seq db;
              db' = db\<lparr>user_prompts_id_seq := new_id + 1\<rparr>;
              row = \<lparr>up_id = new_id,
                     up_claude_session_id = pi_claude_session_id prompt,
                     up_user_id = None,
                     up_prompt_number = pi_prompt_number prompt,
                     up_prompt_text = pi_prompt_text prompt,
                     up_created_at = pi_created_at prompt,
                     up_created_at_epoch = pi_created_at_epoch prompt\<rparr>
          in if new_id \<in> set (map up_id (user_prompts db))
             then (Inl (UniqueViolation ''user_prompts_pkey''), db')
             else if pi_claude_session_id prompt \<notin> set (map ss_claude_session_id (sdk_sessions db))
             then (Inl (ForeignKeyViolation ''user_prompts_claude_session_id_fkey''), db')
             else (Inr \<lparr>imported = True, row_id = new_id\<rparr>,
                   db'\<lparr>user_prompts := user_prompts db @ [row]\<rparr>))"

section \<open>Replication to the secondary workers (replication-utils)\<close>

text \<open>
  The environment of a replication call: the port list and the primary port that
  \<^verbatim>\<open>getWorkerPorts()\<close> and \<^verbatim>\<open>getWorkerPort()\<close> return, the host that \<^verbatim>\<open>getWorkerHost()\<close>
  returns, and the network.  \<open>env_fetch env k url\<close> is what the \<^verbatim>\<open>fetch\<close> of \<open>url\<close> does in
  the iteration number \<open>k\<close> of the loop: the promise resolves with a response
  (\<^verbatim>\<open>response.ok\<close>, \<^verbatim>\<open>response.status\<close>), or it rejects with an error of the given message
  (an unreachable endpoint, or the abort after the 5 second timeout).
\<close>

datatype fetch_outcome = Response bool int | Rejected string

datatype log_value = Num int | Str string

datatype event =
    FetchPost string string
  | LogWarn string string "(string \<times> log_value) list"
  | LogDebug string string "(string \<times> log_value) list"

record worker_env =
  env_worker_ports :: "nat list"
  env_worker_port :: nat
  env_worker_host :: string
  env_fetch :: "nat \<Rightarrow> string \<Rightarrow> fetch_outcome"

definition getSecondaryPorts :: "worker_env \<Rightarrow> nat list" where
  "getSecondaryPorts env =
     (let allPorts = env_worker_ports env;
          primaryPort = env_worker_port env
      in filter (\<lambda>p. p \<noteq> primaryPort) allPorts)"

text \<open>The decimal text of a port number in a template literal.\<close>

definition digit_char :: "nat \<Rightarrow> char" where
  "digit_char d = ''0123456789'' ! d"

fun string_of_nat :: "nat \<Rightarrow> string" where
  "string_of_nat n =
     (if n < 10 then [digit_char n]
      else string_of_nat (n div 10) @ [digit_char (n mod 10)])"

declare string_of_nat.simps [simp del]

text \<open>The URL of a replication endpoint, as the template literal builds it.\<close>

definition endpoint :: "string \<Rightarrow> string \<Rightarrow> nat \<Rightarrow> string" where
  "endpoint host path port = ''http://'' @ host @ '':'' @ string_of_nat port @ path"

text \<open>A fetch counts as delivered when the promise resolves with \<^verbatim>\<open>response.ok\<close>.\<close>

definition fetch_ok :: "fetch_outcome \<Rightarrow> bool" where
  "fetch_ok outcome = (case outcome of Response ok status \<Rightarrow> ok | Rejected msg \<Rightarrow> False)"

text \<open>What differs between the four \<^verbatim>\<open>replicate*\<close> functions: the path, the three log
  messages and the key under which the entity id is logged.\<close>

record replication_kind =
  rk_path :: string
  rk_failed :: string
  rk_done :: string
  rk_error :: string
  rk_id_key :: string

text \<open>
  The body of the \<^verbatim>\<open>try\<close> block for one port.  \<open>body\<close> is what \<^verbatim>\<open>JSON.stringify(data)\<close>
  does: it returns the text, or throws an error with a message.  The result is \<open>Inl\<close>
  of the message when the block throws, with the events that came before.
\<close>

definition try_port ::
  "worker_env \<Rightarrow> replication_kind \<Rightarrow> string + string \<Rightarrow> int \<Rightarrow> string \<Rightarrow> nat \<Rightarrow> nat
     \<Rightarrow> (string + unit) \<times> event list" where
  "try_port env rk body entityId host k port =
     (case body of
        Inl msg \<Rightarrow> (Inl msg, [])
      | Inr text \<Rightarrow>
          let url = endpoint host (rk_path rk) port
          in (case env_fetch env k url of
                Rejected msg \<Rightarrow> (Inl msg, [FetchPost url text])
              | Response ok status \<Rightarrow>
                  (Inr (),
                   [FetchPost url text,
                    (if \<not> ok
                     then LogWarn ''REPLICATION'' (rk_failed rk @ string_of_nat port)
                            [(''status'', Num status), (rk_id_key rk, Num entityId)]
                     else LogDebug ''REPLICATION'' (rk_done rk @ string_of_nat port)
                            [(rk_id_key rk, Num entityId)])])))"

text \<open>
  The loop over the secondary ports: each iteration is the \<^verbatim>\<open>try\<close> block followed by its
  \<^verbatim>\<open>catch\<close>, which logs a warning and lets the loop go on.  The result is \<open>Inl\<close> when an
  error leaves the function.
\<close>

fun replicate_loop ::
  "worker_env \<Rightarrow> replication_kind \<Rightarrow> string + string \<Rightarrow> int \<Rightarrow> string \<Rightarrow> nat \<Rightarrow> nat list
     \<Rightarrow> (string + unit) \<times> event list" where
  "replicate_loop env rk body entityId host k [] = (Inr (), [])"
| "replicate_loop env rk body entityId host k (port # ports) =
     (let (outcome, evs) = try_port env rk body entityId host k port;
          caught = (case outcome of
                      Inr _ \<Rightarrow> []
                    | Inl msg \<Rightarrow>
                        [LogWarn ''REPLICATION'' (rk_error rk @ string_of_nat port)
                           [(''error'', Str msg), (rk_id_key rk, Num entityId)]]);
          (result, later) = replicate_loop env rk body entityId host (Suc k) ports
      in (result, evs @ caught @ later))"

definition replicate_to_secondaries ::
  "worker_env \<Rightarrow> replication_kind \<Rightarrow> string + string \<Rightarrow> int \<Rightarrow> (string + unit) \<times> event list" where
  "replicate_to_secondaries env rk body entityId =
     (let secondaryPorts = getSecondaryPorts env
      in if length secondaryPorts = 0 then (Inr (), [])
         else let host = env_worker_host env
              in replicate_loop env rk body entityId host 0 secondaryPorts)"

definition replicateObservation ::
  "worker_env \<Rightarrow> string + string \<Rightarrow> int \<Rightarrow> (string + unit) \<times> event list" where
  "replicateObservation env body obsId =
     replicate_to_secondaries env
       \<lparr>rk_path = ''/api/replicate/observation'',
        rk_failed = ''Failed to replicate observation to port '',
        rk_done = ''Observation replicated to port '',
        rk_error = ''Error replicating observation to port '',
        rk_id_key = ''obsId''\<rparr> body obsId"

definition replicateSummary ::
  "worker_env \<Rightarrow> string + string \<Rightarrow> int \<Rightarrow> (string + unit) \<times> event list" where
  "replicateSummary env body summaryId =
     replicate_to_secondaries env
       \<lparr>rk_path = ''/api/replicate/summary'',
        rk_failed = ''Failed to replicate summary to port '',
        rk_done = ''Summary replicated to port '',
        rk_error = ''Error replicating summary to port '',
        rk_id_key = ''summaryId''\<rparr> body summaryId"

definition replicateSessionInit ::
  "worker_env \<Rightarrow> string + string \<Rightarrow> int \<Rightarrow> (string + unit) \<times> event list" where
  "replicateSessionInit env body sessionDbId =
     replicate_to_secondaries env
       \<lparr>rk_path = ''/api/replicate/session'',
        rk_failed = ''Failed to replicate session to port '',
        rk_done = ''Session replicated to port '',
        rk_error = ''Error replicating session to port '',
        rk_id_key = ''sessionDbId''\<rparr> body sessionDbId"

definition replicateUserPrompt ::
  "worker_env \<Rightarrow> string + string \<Rightarrow> int \<Rightarrow> (string + unit) \<times> event list" where
  "replicateUserPrompt env body promptNumber =
     replicate_to_secondaries env
       \<lparr>rk_path = ''/api/replicate/prompt'',
        rk_failed = ''Failed to replicate prompt to port '',
        rk_done = ''Prompt replicated to port '',
        rk_error = ''Error replicating prompt to port '',
        rk_id_key = ''promptNumber''\<rparr> body promptNumber"

text \<open>The URLs fetched and the number of warnings in a trace of events.\<close>

fun fetched_urls :: "event list \<Rightarrow> string list" where
  "fetched_urls [] = []"
| "fetched_urls (FetchPost url body # evs) = url # fetched_urls evs"
| "fetched_urls (_ # evs) = fetched_urls evs"

fun warnings :: "event list \<Rightarrow> event list" where
  "warnings [] = []"
| "warnings (LogWarn c m ctx # evs) = LogWarn c m ctx # warnings evs"
| "warnings (_ # evs) = warnings evs"

subsection \<open>Sequences of queue operations\<close>

text \<open>
  The methods of the store that change the table, with the time at which each runs,
  and the effect of one of them on the database.  A sequence of operations is a sequence
  of such steps.
\<close>

datatype queue_op =
    Enqueue int int string PendingMessage
  | RetryMessage int
  | ResetProcessingToPending int
  | AbortMessage int
  | RetryAllStuck int int
  | MarkProcessing int int
  | MarkProcessed int int
  | MarkFailed int int
  | ResetStuckMessages int int
  | CleanupProcessed int

fun apply_op :: "int \<Rightarrow> queue_op \<Rightarrow> database \<Rightarrow> database" where
  "apply_op maxRetries (Enqueue now sessionDbId claudeSessionId message) db =
     snd (enqueue now sessionDbId claudeSessionId message db)"
| "apply_op maxRetries (RetryMessage messageId) db = snd (retryMessage messageId db)"
| "apply_op maxRetries (ResetProcessingToPending sessionDbId) db =
     snd (resetProcessingToPending sessionDbId db)"
| "apply_op maxRetries (AbortMessage messageId) db = snd (abortMessage messageId db)"
| "apply_op maxRetries (RetryAllStuck now thresholdMs) db = snd (retryAllStuck now thresholdMs db)"
| "apply_op maxRetries (MarkProcessing now messageId) db = markProcessing now messageId db"
| "apply_op maxRetries (MarkProcessed now messageId) db = markProcessed now messageId db"
| "apply_op maxRetries (MarkFailed now messageId) db = markFailed maxRetries now messageId db"
| "apply_op maxRetries (ResetStuckMessages now thresholdMs) db =
     snd (resetStuckMessages now thresholdMs db)"
| "apply_op maxRetries (CleanupProcessed retentionCount) db =
     snd (cleanupProcessed retentionCount db)"

text \<open>A sequence of operations, run from left to right.\<close>

fun run_ops :: "int \<Rightarrow> queue_op list \<Rightarrow> database \<Rightarrow> database" where
  "run_ops maxRetries [] db = db"
| "run_ops maxRetries (op # ops) db = run_ops maxRetries ops (apply_op maxRetries op db)"

section \<open>Concrete stores\<close>

text \<open>
  A fresh database, a session \<open>S\<close> created in it, and a job \<open>A\<close> of kind observation
  enqueued for that session; they are the inputs at which the results below are
  evaluated.
\<close>

definition empty_db :: database where
  "empty_db =
     \<lparr>sdk_sessions = [], sdk_sessions_id_seq = 1,
      observations = [], observations_id_seq = 1,
      session_summaries = [], session_summaries_id_seq = 1,
      user_prompts = [], user_prompts_id_seq = 1,
      pending_messages = [], pending_messages_id_seq = 1\<rparr>"

definition session_db :: database where
  "session_db =
     snd (createSDKSession ''2026-01-01T00:00:00.000Z'' 1000 ''dev'' ''S'' ''proj'' ''hello'' empty_db)"

definition job_A :: PendingMessage where
  "job_A =
     \<lparr>msg_type = Observation,
      msg_tool_name = Some ''Read'',
      msg_tool_input = Some ''[1]'',
      msg_tool_response = Some ''[2]'',
      msg_cwd = Some ''/work'',
      msg_last_user_message = None,
      msg_last_assistant_message = None,
      msg_prompt_number = Some 1\<rparr>"

definition queue_db :: database where
  "queue_db = snd (enqueue 2000 1 ''S'' job_A session_db)"

text \<open>The job \<open>A\<close> claimed once, and the job \<open>A\<close> after four failed rounds under \<open>maxRetries = 3\<close>.\<close>

definition processing_db :: database where
  "processing_db = markProcessing 2010 1 queue_db"

definition exhausted_db :: database where
  "exhausted_db =
     markFailed 3 2080 1 (markProcessing 2070 1
       (markFailed 3 2060 1 (markProcessing 2050 1
         (markFailed 3 2040 1 (markProcessing 2030 1
           (markFailed 3 2020 1 (markProcessing 2010 1 queue_db)))))))"

text \<open>
  Five observations of the session \<open>S\<close> at the epochs 10, 20, 30, 40 and 50, and nothing
  else in the timeline tables.
\<close>

definition observation_at :: "int \<Rightarrow> int \<Rightarrow> observation" where
  "observation_at i epoch =
     \<lparr>ob_id = i, ob_sdk_session_id = ''S'', ob_project = ''proj'', ob_user_id = None,
      ob_text = None, ob_type = ''discovery'', ob_title = Some ''note'', ob_subtitle = None,
      ob_facts = None, ob_narrative = None, ob_concepts = None, ob_files_read = None,
      ob_files_modified = None, ob_prompt_number = Some 1, ob_discovery_tokens = 0,
      ob_created_at = ''1970-01-01T00:00:00.000Z'', ob_created_at_epoch = epoch\<rparr>"

definition timeline_db :: database where
  "timeline_db =
     session_db\<lparr>observations :=
                  [observation_at 1 10, observation_at 2 20, observation_at 3 30,
                   observation_at 4 40, observation_at 5 50],
                observations_id_seq := 6\<rparr>"

text \<open>
  Import payloads for the session \<open>S\<close>: an observation with a title and one whose title
  is null, two summaries that differ in their prompt number, a prompt, and the session
  itself under another external id.
\<close>

definition titled_observation :: observation_import where
  "titled_observation =
     \<lparr>oi_sdk_session_id = ''S'', oi_project = ''proj'', oi_text = None,
      oi_type = ''discovery'', oi_title = Some ''note'', oi_subtitle = None, oi_facts = None,
      oi_narrative = None, oi_concepts = None, oi_files_read = None,
      oi_files_modified = None, oi_prompt_number = Some 1, oi_discovery_tokens = 0,
      oi_created_at = ''1970-01-01T00:00:00.000Z'', oi_created_at_epoch = 10\<rparr>"

definition untitled_observation :: observation_import where
  "untitled_observation = titled_observation\<lparr>oi_title := None\<rparr>"

definition summary_of_prompt :: "int \<Rightarrow> session_summary_import" where
  "summary_of_prompt n =
     \<lparr>mi_sdk_session_id = ''S'', mi_project = ''proj'', mi_request = Some ''request'',
      mi_investigated = None, mi_learned = None, mi_completed = None, mi_next_steps = None,
      mi_files_read = None, mi_files_edited = None, mi_notes = None,
      mi_prompt_number = Some n, mi_discovery_tokens = 0,
      mi_created_at = ''1970-01-01T00:00:00.000Z'', mi_created_at_epoch = 10 * n\<rparr>"

definition summary_db :: database where
  "summary_db = snd (importSessionSummary (summary_of_prompt 1) session_db)"

definition first_prompt :: user_prompt_import where
  "first_prompt =
     \<lparr>pi_claude_session_id = ''S'', pi_prompt_number = 1, pi_prompt_text = ''hello'',
      pi_created_at = ''1970-01-01T00:00:00.000Z'', pi_created_at_epoch = 10\<rparr>"

definition session_T :: sdk_session_import where
  "session_T =
     \<lparr>si_claude_session_id = ''T'', si_sdk_session_id = ''T'', si_project = ''proj'',
      si_user_prompt = ''hi'', si_started_at = ''1970-01-01T00:00:00.000Z'',
      si_started_at_epoch = 10, si_completed_at = None, si_completed_at_epoch = None,
      si_status = ''completed''\<rparr>"

text \<open>
  Two workers on one host, the primary on port 37777 and a secondary on port 38888 that
  cannot be reached; and a primary with no secondary.
\<close>

definition unreachable_env :: worker_env where
  "unreachable_env =
     \<lparr>env_worker_ports = [37777, 38888], env_worker_port = 37777,
      env_worker_host = ''127.0.0.1'',
      env_fetch = (\<lambda>k url. Rejected ''fetch failed'')\<rparr>"

definition single_env :: worker_env where
  "single_env =
     \<lparr>env_worker_ports = [37777], env_worker_port = 37777,
      env_worker_host = ''127.0.0.1'',
      env_fetch = (\<lambda>k url. Rejected ''fetch failed'')\<rparr>"

section \<open>The work queue: what each transition does to a job\<close>

text \<open>
  Every transition is an \<^verbatim>\<open>UPDATE\<close> that keeps the id of the rows it rewrites, so the row
  of a job after a transition is the rewritten row of that job before it.
\<close>

lemma find_sql_update:
  assumes "\<And>m. key (upd m) = key m"
  shows "find (\<lambda>m. key m = i) (sql_update cond upd rows)
         = map_option (\<lambda>m. if cond m then upd m else m) (find (\<lambda>m. key m = i) rows)"
  using assms by (induction rows) (auto simp: sql_update_def)

lemma filter_Nil_find: "filter P xs = [] \<longleftrightarrow> find P xs = None"
  by (induction xs) auto

lemma filter_Cons_find: "filter P xs = x # ys \<Longrightarrow> find P xs = Some x"
  by (induction xs) (auto split: if_splits)

lemma get_message_markProcessing:
  "get_message (markProcessing now i db) j
   = map_option (\<lambda>m. if pm_id m = i \<and> pm_status m = Pending
                       then m\<lparr>pm_status := Processing, pm_started_processing_at_epoch := Some now\<rparr>
                       else m) (get_message db j)"
  by (simp add: get_message_def markProcessing_def find_sql_update)

lemma get_message_markProcessed:
  "get_message (markProcessed now i db) j
   = map_option (\<lambda>m. if pm_id m = i \<and> pm_status m = Processing
                       then m\<lparr>pm_status := Processed, pm_completed_at_epoch := Some now,
                               pm_tool_input := None, pm_tool_response := None\<rparr>
                       else m) (get_message db j)"
  by (simp add: get_message_def markProcessed_def find_sql_update)

lemma get_message_markFailed:
  "get_message (markFailed mx now i db) j
   = (case get_message db i of
        None \<Rightarrow> get_message db j
      | Some msg \<Rightarrow>
          if pm_retry_count msg < mx
          then map_option (\<lambda>m. if pm_id m = i
                            then m\<lparr>pm_status := Pending, pm_retry_count := pm_retry_count m + 1,
                                    pm_started_processing_at_epoch := None\<rparr>
                            else m) (get_message db j)
          else map_option (\<lambda>m. if pm_id m = i
                            then m\<lparr>pm_status := Failed, pm_completed_at_epoch := Some now\<rparr>
                            else m) (get_message db j))"
proof (cases "filter (\<lambda>m. pm_id m = i) (pending_messages db)")
  case Nil
  then have "find (\<lambda>m. pm_id m = i) (pending_messages db) = None"
    by (simp add: filter_Nil_find)
  with Nil show ?thesis
    by (simp add: markFailed_def get_message_def)
next
  case (Cons msg rest)
  then have "find (\<lambda>m. pm_id m = i) (pending_messages db) = Some msg"
    by (rule filter_Cons_find)
  with Cons show ?thesis
    by (cases "pm_retry_count msg < mx")
       (simp_all add: markFailed_def get_message_def find_sql_update)
qed

lemma get_message_retryMessage:
  "get_message (snd (retryMessage i db)) j
   = map_option (\<lambda>m. if pm_id m = i \<and> pm_status m \<in> {Pending, Processing, Failed}
                       then m\<lparr>pm_status := Pending, pm_started_processing_at_epoch := None\<rparr>
                       else m) (get_message db j)"
  by (simp add: get_message_def retryMessage_def find_sql_update Let_def)

lemma get_message_resetStuckMessages:
  "get_message (snd (resetStuckMessages now th db)) j
   = map_option (\<lambda>m. if pm_status m = Processing
                          \<and> sql_lt (pm_started_processing_at_epoch m) (if th = 0 then now else now - th)
                       then m\<lparr>pm_status := Pending, pm_started_processing_at_epoch := None\<rparr>
                       else m) (get_message db j)"
  by (simp add: get_message_def resetStuckMessages_def find_sql_update Let_def)

lemma get_message_id: "get_message db i = Some m \<Longrightarrow> pm_id m = i"
  by (auto simp: get_message_def find_Some_iff)

lemma find_append_fresh:
  "i \<notin> set (map key rows) \<Longrightarrow>
   find (\<lambda>m. key m = i) (rows @ [r]) = (if key r = i then Some r else None)"
  by (induction rows) auto

lemma get_message_enqueue:
  assumes "enqueue t sid csid msg db = (Inr i, db0)"
  shows "\<exists>m. get_message db0 i = Some m \<and> pm_status m = Pending \<and> pm_retry_count m = 0
             \<and> pm_started_processing_at_epoch m = None"
  using assms
  by (auto simp: enqueue_def Let_def get_message_def find_append_fresh split: if_splits)

lemma queue_db_job:
  "get_message queue_db 1 =
     Some \<lparr>pm_id = 1, pm_session_db_id = 1, pm_claude_session_id = ''S'',
           pm_message_type = Observation, pm_tool_name = Some ''Read'',
           pm_tool_input = Some ''[1]'', pm_tool_response = Some ''[2]'',
           pm_cwd = Some ''/work'', pm_last_user_message = None,
           pm_last_assistant_message = None, pm_prompt_number = Some 1,
           pm_status = Pending, pm_retry_count = 0, pm_created_at_epoch = 2000,
           pm_started_processing_at_epoch = None, pm_completed_at_epoch = None\<rparr>"
  by (simp add: queue_db_def get_message_def enqueue_def session_db_def createSDKSession_def
      empty_db_def job_A_def Let_def str_or_null_def num_or_null_def)

subsection \<open>Bounded retries\<close>

text \<open>
  C1, as stated, fails: with \<open>maxRetries = 3\<close> the third \<^verbatim>\<open>markFailed\<close> of a freshly
  enqueued job finds \<open>retry_count = 2 < 3\<close> and sends the job back to \<open>pending\<close> with
  \<open>retry_count = 3\<close>; the job is not in the terminal status \<open>failed\<close>.
\<close>

theorem markFailed_three_times_counterexample:
  "map_option pm_status
     (get_message
        (markFailed 3 2060 1 (markProcessing 2050 1
          (markFailed 3 2040 1 (markProcessing 2030 1
            (markFailed 3 2020 1 (markProcessing 2010 1 queue_db)))))) 1) = Some Pending
   \<and> Pending \<noteq> Failed"
  by (simp add: get_message_markFailed get_message_markProcessing queue_db_job)

text \<open>
  C1, amended: for a job enqueued with \<open>retry_count = 0\<close> under \<open>maxRetries = 3\<close>, each
  of the first three rounds of \<^verbatim>\<open>markProcessing\<close> then \<^verbatim>\<open>markFailed\<close> returns the job to
  \<open>pending\<close> with the start time cleared and \<open>retry_count\<close> one higher (1, 2, 3); the
  fourth \<^verbatim>\<open>markFailed\<close> finds \<open>retry_count = 3\<close>, not below \<open>maxRetries\<close>, and leaves the
  job in the terminal status \<open>failed\<close> with \<open>retry_count = 3\<close>.
\<close>

theorem markFailed_retry_budget:
  assumes "enqueue t0 sid csid msg db = (Inr i, db0)"
  shows "let summary = (\<lambda>d. map_option (\<lambda>m. (pm_status m, pm_retry_count m,
                                                pm_started_processing_at_epoch m))
                                    (get_message d i));
             db1 = markFailed 3 t2 i (markProcessing t1 i db0);
             db2 = markFailed 3 t4 i (markProcessing t3 i db1);
             db3 = markFailed 3 t6 i (markProcessing t5 i db2);
             db4 = markFailed 3 t8 i (markProcessing t7 i db3)
         in summary db0 = Some (Pending, 0, None)
          \<and> summary db1 = Some (Pending, 1, None)
          \<and> summary db2 = Some (Pending, 2, None)
          \<and> summary db3 = Some (Pending, 3, None)
          \<and> summary db4 = Some (Failed, 3, Some t7)"
proof -
  from get_message_enqueue [OF assms] obtain m where
    m: "get_message db0 i = Some m" "pm_status m = Pending" "pm_retry_count m = 0"
       "pm_started_processing_at_epoch m = None"
    by blast
  have i: "pm_id m = i" using m(1) by (rule get_message_id)
  show ?thesis
    by (simp add: Let_def get_message_markFailed get_message_markProcessing m i)
qed

theorem markFailed_retry_budget_witness:
  "fst (enqueue 2000 1 ''S'' job_A session_db) = Inr 1
   \<and> map_option (\<lambda>m. (pm_status m, pm_retry_count m))
        (get_message
           (markFailed 3 2080 1 (markProcessing 2070 1
             (markFailed 3 2060 1 (markProcessing 2050 1
               (markFailed 3 2040 1 (markProcessing 2030 1
                 (markFailed 3 2020 1 (markProcessing 2010 1 queue_db)))))))) 1)
       = Some (Failed, 3)"
proof -
  have e: "enqueue 2000 1 ''S'' job_A session_db = (Inr 1, queue_db)"
    by (simp add: queue_db_def enqueue_def session_db_def createSDKSession_def empty_db_def
        Let_def)
  from markFailed_retry_budget [OF e, of 2020 2010 2040 2030 2060 2050 2080 2070]
  show ?thesis
    by (auto simp: Let_def e)
qed

lemma processing_db_job:
  "get_message processing_db 1 =
     Some \<lparr>pm_id = 1, pm_session_db_id = 1, pm_claude_session_id = ''S'',
             pm_message_type = Observation, pm_tool_name = Some ''Read'',
             pm_tool_input = Some ''[1]'', pm_tool_response = Some ''[2]'',
             pm_cwd = Some ''/work'', pm_last_user_message = None,
             pm_last_assistant_message = None, pm_prompt_number = Some 1,
             pm_status = Processing, pm_retry_count = 0, pm_created_at_epoch = 2000,
             pm_started_processing_at_epoch = Some 2010, pm_completed_at_epoch = None\<rparr>"
  by (simp add: processing_db_def get_message_markProcessing queue_db_job)

lemma exhausted_db_job:
  "get_message exhausted_db 1 =
     Some \<lparr>pm_id = 1, pm_session_db_id = 1, pm_claude_session_id = ''S'',
             pm_message_type = Observation, pm_tool_name = Some ''Read'',
             pm_tool_input = Some ''[1]'', pm_tool_response = Some ''[2]'',
             pm_cwd = Some ''/work'', pm_last_user_message = None,
             pm_last_assistant_message = None, pm_prompt_number = Some 1,
             pm_status = Failed, pm_retry_count = 3, pm_created_at_epoch = 2000,
             pm_started_processing_at_epoch = Some 2070, pm_completed_at_epoch = Some 2080\<rparr>"
  by (simp add: exhausted_db_def get_message_markFailed get_message_markProcessing queue_db_job)

subsection \<open>The status state machine\<close>

text \<open>
  The rows of the table keep distinct ids (the primary key); every operation of the
  store preserves this, and what an operation does to the row of a job can be read off
  the row before it.
\<close>

lemma map_key_sql_update:
  assumes "\<And>m. key (upd m) = key m"
  shows "map key (sql_update cond upd rows) = map key rows"
  using assms by (simp add: sql_update_def)

lemma find_sql_delete:
  assumes "distinct (map key rows)"
  shows "find (\<lambda>r. key r = i) (sql_delete cond rows)
         = (case find (\<lambda>r. key r = i) rows of
              None \<Rightarrow> None
            | Some m \<Rightarrow> if cond m then None else Some m)"
  using assms
proof (induction rows)
  case Nil
  then show ?case by (simp add: sql_delete_def)
next
  case (Cons a rows)
  show ?case
  proof (cases "key a = i")
    case True
    from Cons.prems have "key a \<notin> key ` set rows"
      by simp
    with True have "\<forall>x \<in> set rows. key x \<noteq> i"
      by blast
    then have "find (\<lambda>r. key r = i) (sql_delete cond rows) = None"
      by (auto simp: find_None_iff sql_delete_def)
    with True show ?thesis
      by (simp add: sql_delete_def)
  next
    case False
    with Cons show ?thesis
      by (simp add: sql_delete_def)
  qed
qed

lemma distinct_sql_delete:
  "distinct (map key rows) \<Longrightarrow> distinct (map key (sql_delete cond rows))"
  by (simp add: sql_delete_def distinct_map_filter)

lemma get_message_resetProcessingToPending:
  "get_message (snd (resetProcessingToPending s db)) j
   = map_option (\<lambda>m. if pm_session_db_id m = s \<and> pm_status m = Processing
                       then m\<lparr>pm_status := Pending, pm_started_processing_at_epoch := None\<rparr>
                       else m) (get_message db j)"
  by (simp add: get_message_def resetProcessingToPending_def find_sql_update Let_def)

lemma get_message_retryAllStuck:
  "get_message (snd (retryAllStuck now th db)) j
   = map_option (\<lambda>m. if pm_status m = Processing
                          \<and> sql_lt (pm_started_processing_at_epoch m) (now - th)
                       then m\<lparr>pm_status := Pending, pm_started_processing_at_epoch := None\<rparr>
                       else m) (get_message db j)"
  by (simp add: get_message_def retryAllStuck_def find_sql_update Let_def)

lemma get_message_abortMessage:
  assumes "distinct (map pm_id (pending_messages db))"
  shows "get_message (snd (abortMessage i db)) j = (if j = i then None else get_message db j)"
proof (cases "get_message db j")
  case None
  then show ?thesis
    using find_sql_delete [OF assms, of j "\<lambda>m. pm_id m = i"]
    by (simp add: get_message_def abortMessage_def Let_def)
next
  case (Some m)
  then have "pm_id m = j" by (rule get_message_id)
  with Some show ?thesis
    using find_sql_delete [OF assms, of j "\<lambda>m. pm_id m = i"]
    by (auto simp: get_message_def abortMessage_def Let_def)
qed

lemma get_message_cleanupProcessed:
  assumes "distinct (map pm_id (pending_messages db))"
  shows "get_message (snd (cleanupProcessed n db)) j = get_message db j
         \<or> (get_message (snd (cleanupProcessed n db)) j = None
            \<and> (\<exists>m. get_message db j = Some m \<and> pm_status m = Processed))"
proof (cases "n < 0")
  case True
  then show ?thesis by (simp add: cleanupProcessed_def)
next
  case False
  then show ?thesis
    using find_sql_delete [OF assms, of j]
    by (cases "get_message db j")
       (auto simp: get_message_def cleanupProcessed_def Let_def)
qed

lemma find_append_case:
  "find P (xs @ ys) = (case find P xs of None \<Rightarrow> find P ys | Some x \<Rightarrow> Some x)"
  by (induction xs) auto

lemma get_message_enqueue_step:
  "get_message (snd (enqueue t sid csid msg db)) j = get_message db j
   \<or> (get_message db j = None
      \<and> (\<exists>m. get_message (snd (enqueue t sid csid msg db)) j = Some m
              \<and> pm_status m = Pending \<and> pm_retry_count m = 0))"
proof (cases "get_message db j")
  case None
  then show ?thesis
    by (auto simp: enqueue_def Let_def get_message_def find_append_case)
next
  case (Some m)
  then show ?thesis
    by (auto simp: enqueue_def Let_def get_message_def find_append_case)
qed

lemma distinct_apply_op:
  assumes "distinct (map pm_id (pending_messages db))"
  shows "distinct (map pm_id (pending_messages (apply_op maxRetries op db)))"
proof (cases op)
  case (Enqueue t sid csid msg)
  then show ?thesis using assms by (auto simp: enqueue_def Let_def)
next
  case (MarkFailed now j)
  then show ?thesis
    using assms
    by (auto simp: markFailed_def map_key_sql_update split: list.splits)
next
  case (CleanupProcessed n)
  then show ?thesis
    using assms by (auto simp: cleanupProcessed_def Let_def distinct_sql_delete)
qed (use assms in \<open>simp_all add: retryMessage_def resetProcessingToPending_def abortMessage_def
       retryAllStuck_def markProcessing_def markProcessed_def resetStuckMessages_def Let_def
       map_key_sql_update distinct_sql_delete\<close>)

lemma apply_op_step:
  assumes "distinct (map pm_id (pending_messages db))" and "get_message db i = Some m"
  shows "(get_message (apply_op maxRetries op db) i = None
            \<and> (op = AbortMessage i
                 \<or> (pm_status m = Processed \<and> (\<exists>n. op = CleanupProcessed n))))
       \<or> (\<exists>m'. get_message (apply_op maxRetries op db) i = Some m'
            \<and> pm_retry_count m \<le> pm_retry_count m'
            \<and> (pm_status m' = Processing \<and> pm_status m \<noteq> Processing
                 \<longrightarrow> pm_status m = Pending \<and> (\<exists>now. op = MarkProcessing now i))
            \<and> (pm_status m' = Processed \<and> pm_status m \<noteq> Processed
                 \<longrightarrow> pm_status m = Processing \<and> (\<exists>now. op = MarkProcessed now i))
            \<and> (pm_status m' = Failed \<and> pm_status m \<noteq> Failed
                 \<longrightarrow> (\<exists>now. op = MarkFailed now i) \<and> maxRetries \<le> pm_retry_count m
                     \<and> pm_retry_count m' = pm_retry_count m)
            \<and> (pm_status m' = Pending \<and> pm_status m \<noteq> Pending
                 \<longrightarrow> ((\<exists>now. op = MarkFailed now i) \<and> pm_retry_count m < maxRetries
                        \<and> pm_retry_count m' = pm_retry_count m + 1)
                   \<or> (pm_status m \<in> {Processing, Failed} \<and> op = RetryMessage i
                        \<and> pm_retry_count m' = pm_retry_count m)
                   \<or> (pm_status m = Processing \<and> pm_retry_count m' = pm_retry_count m
                        \<and> ((\<exists>s. op = ResetProcessingToPending s)
                             \<or> (\<exists>now th. op = RetryAllStuck now th)
                             \<or> (\<exists>now th. op = ResetStuckMessages now th)))))"
proof -
  have i: "pm_id m = i" using assms(2) by (rule get_message_id)
  show ?thesis
  proof (cases op)
    case (Enqueue t sid csid msg)
    then show ?thesis
      using get_message_enqueue_step [of t sid csid msg db i] assms(2) by auto
  next
    case (RetryMessage j)
    then show ?thesis
      using assms(2) i by (auto simp: get_message_retryMessage)
  next
    case (ResetProcessingToPending s)
    then show ?thesis
      using assms(2) i by (auto simp: get_message_resetProcessingToPending)
  next
    case (AbortMessage j)
    then show ?thesis
      using assms by (auto simp: get_message_abortMessage)
  next
    case (RetryAllStuck now th)
    then show ?thesis
      using assms(2) i by (auto simp: get_message_retryAllStuck)
  next
    case (MarkProcessing now j)
    then show ?thesis
      using assms(2) i by (auto simp: get_message_markProcessing)
  next
    case (MarkProcessed now j)
    then show ?thesis
      using assms(2) i by (auto simp: get_message_markProcessed)
  next
    case (MarkFailed now j)
    then show ?thesis
      using assms(2) i
      by (cases "get_message db j") (auto simp: get_message_markFailed)
  next
    case (ResetStuckMessages now th)
    then show ?thesis
      using assms(2) i by (auto simp: get_message_resetStuckMessages)
  next
    case (CleanupProcessed n)
    then show ?thesis
      using get_message_cleanupProcessed [OF assms(1), of n i] assms(2) by auto
  qed
qed

lemma apply_op_fresh:
  assumes "distinct (map pm_id (pending_messages db))" and "get_message db i = None"
  shows "get_message (apply_op maxRetries op db) i = None
       \<or> (\<exists>m'. get_message (apply_op maxRetries op db) i = Some m'
                \<and> pm_status m' = Pending \<and> pm_retry_count m' = 0)"
proof (cases op)
  case (Enqueue t sid csid msg)
  then show ?thesis
    using get_message_enqueue_step [of t sid csid msg db i] assms(2) by auto
next
  case (AbortMessage j)
  then show ?thesis
    using assms by (auto simp: get_message_abortMessage)
next
  case (MarkFailed now j)
  then show ?thesis
    using assms(2) by (cases "get_message db j") (auto simp: get_message_markFailed)
next
  case (CleanupProcessed n)
  then show ?thesis
    using get_message_cleanupProcessed [OF assms(1), of n i] assms(2) by auto
qed (use assms(2) in \<open>auto simp: get_message_retryMessage get_message_resetProcessingToPending
       get_message_retryAllStuck get_message_markProcessing get_message_markProcessed
       get_message_resetStuckMessages\<close>)

lemma apply_op_failed_budget:
  assumes d: "distinct (map pm_id (pending_messages db))"
    and inv: "\<forall>m. get_message db i = Some m \<longrightarrow> pm_status m = Failed
                \<longrightarrow> maxRetries \<le> pm_retry_count m"
    and after: "get_message (apply_op maxRetries op db) i = Some m'" "pm_status m' = Failed"
  shows "maxRetries \<le> pm_retry_count m'"
proof (cases "get_message db i")
  case None
  from apply_op_fresh [OF d None, of maxRetries op] after show ?thesis
    by auto
next
  case (Some m)
  from apply_op_step [OF d Some, of maxRetries op] after obtain
    mono: "pm_retry_count m \<le> pm_retry_count m'"
    and entry: "pm_status m \<noteq> Failed \<longrightarrow> maxRetries \<le> pm_retry_count m"
    by auto
  show ?thesis
  proof (cases "pm_status m = Failed")
    case True
    with inv Some have "maxRetries \<le> pm_retry_count m" by simp
    with mono show ?thesis by simp
  next
    case False
    with entry mono show ?thesis by simp
  qed
qed

lemma run_ops_failed_budget:
  assumes "distinct (map pm_id (pending_messages db))"
    and "\<forall>m. get_message db i = Some m \<longrightarrow> pm_status m = Failed
           \<longrightarrow> maxRetries \<le> pm_retry_count m"
  shows "distinct (map pm_id (pending_messages (run_ops maxRetries ops db)))
       \<and> (\<forall>m. get_message (run_ops maxRetries ops db) i = Some m \<longrightarrow> pm_status m = Failed
              \<longrightarrow> maxRetries \<le> pm_retry_count m)"
  using assms
proof (induction ops arbitrary: db)
  case Nil
  then show ?case by simp
next
  case (Cons op ops)
  have d: "distinct (map pm_id (pending_messages (apply_op maxRetries op db)))"
    using Cons.prems(1) by (rule distinct_apply_op)
  have inv: "\<forall>m. get_message (apply_op maxRetries op db) i = Some m \<longrightarrow> pm_status m = Failed
               \<longrightarrow> maxRetries \<le> pm_retry_count m"
    using apply_op_failed_budget [OF Cons.prems] by blast
  from Cons.IH [OF d inv] show ?case by simp
qed

text \<open>
  The state machine as the code has it, for a job reached from \<^verbatim>\<open>enqueue\<close> by any sequence
  of the store's operations under one \<open>maxRetries\<close>.  One more operation either removes
  the row (\<^verbatim>\<open>abortMessage\<close> on the job, or \<^verbatim>\<open>cleanupProcessed\<close> on a processed job) or
  keeps it with a retry count that is not lower, and then the job enters \<open>processing\<close>
  only from \<open>pending\<close> by \<^verbatim>\<open>markProcessing\<close> on its id, \<open>processed\<close> only from \<open>processing\<close>
  by \<^verbatim>\<open>markProcessed\<close> on its id, \<open>failed\<close> only by \<^verbatim>\<open>markFailed\<close> on its id with the retry
  count at \<open>maxRetries\<close> or above, and \<open>pending\<close> only by \<^verbatim>\<open>markFailed\<close> on its id with the
  retry count below \<open>maxRetries\<close>, by \<^verbatim>\<open>retryMessage\<close> on its id from \<open>processing\<close> or
  \<open>failed\<close>, or by one of the three resets from \<open>processing\<close>.  A failed job stays failed
  under \<^verbatim>\<open>markFailed\<close>; \<^verbatim>\<open>markProcessing\<close> leaves a job that is not pending unchanged;
  \<^verbatim>\<open>markProcessed\<close> leaves a pending job unchanged; \<^verbatim>\<open>markFailed\<close> on a processing job
  gives \<open>pending\<close> or \<open>failed\<close> by the retry check.
\<close>

lemma queue_state_machine:
  assumes "distinct (map pm_id (pending_messages db))"
    and "enqueue t sid csid msg db = (Inr i, db0)"
    and "get_message (run_ops maxRetries ops db0) i = Some m"
  shows "(pm_status m = Failed \<longrightarrow>
            map_option pm_status
              (get_message (markFailed maxRetries now i (run_ops maxRetries ops db0)) i)
            = Some Failed)
       \<and> (pm_status m \<noteq> Pending \<longrightarrow>
            get_message (markProcessing now i (run_ops maxRetries ops db0)) i = Some m)
       \<and> (pm_status m = Pending \<longrightarrow>
            get_message (markProcessed now i (run_ops maxRetries ops db0)) i = Some m)
       \<and> (pm_status m = Processing \<longrightarrow>
            map_option pm_status
              (get_message (markFailed maxRetries now i (run_ops maxRetries ops db0)) i)
            = Some (if pm_retry_count m < maxRetries then Pending else Failed))
       \<and> ((get_message (apply_op maxRetries op (run_ops maxRetries ops db0)) i = None
            \<and> (op = AbortMessage i
                 \<or> (pm_status m = Processed \<and> (\<exists>n. op = CleanupProcessed n))))
          \<or> (\<exists>m'. get_message (apply_op maxRetries op (run_ops maxRetries ops db0)) i = Some m'
            \<and> pm_retry_count m \<le> pm_retry_count m'
            \<and> (pm_status m' = Processing \<and> pm_status m \<noteq> Processing
                 \<longrightarrow> pm_status m = Pending \<and> (\<exists>now. op = MarkProcessing now i))
            \<and> (pm_status m' = Processed \<and> pm_status m \<noteq> Processed
                 \<longrightarrow> pm_status m = Processing \<and> (\<exists>now. op = MarkProcessed now i))
            \<and> (pm_status m' = Failed \<and> pm_status m \<noteq> Failed
                 \<longrightarrow> (\<exists>now. op = MarkFailed now i) \<and> maxRetries \<le> pm_retry_count m
                     \<and> pm_retry_count m' = pm_retry_count m)
            \<and> (pm_status m' = Pending \<and> pm_status m \<noteq> Pending
                 \<longrightarrow> ((\<exists>now. op = MarkFailed now i) \<and> pm_retry_count m < maxRetries
                        \<and> pm_retry_count m' = pm_retry_count m + 1)
                   \<or> (pm_status m \<in> {Processing, Failed} \<and> op = RetryMessage i
                        \<and> pm_retry_count m' = pm_retry_count m)
                   \<or> (pm_status m = Processing \<and> pm_retry_count m' = pm_retry_count m
                        \<and> ((\<exists>s. op = ResetProcessingToPending s)
                             \<or> (\<exists>now th. op = RetryAllStuck now th)
                             \<or> (\<exists>now th. op = ResetStuckMessages now th))))))"
proof -
  let ?d = "run_ops maxRetries ops db0"
  have db0: "db0 = apply_op maxRetries (Enqueue t sid csid msg) db"
    using assms(2) by simp
  have d0: "distinct (map pm_id (pending_messages db0))"
    unfolding db0 using assms(1) by (rule distinct_apply_op)
  from get_message_enqueue [OF assms(2)]
  have inv0: "\<forall>m. get_message db0 i = Some m \<longrightarrow> pm_status m = Failed
                \<longrightarrow> maxRetries \<le> pm_retry_count m"
    by auto
  from run_ops_failed_budget [OF d0 inv0, of ops]
  have d: "distinct (map pm_id (pending_messages ?d))"
    and budget: "pm_status m = Failed \<longrightarrow> maxRetries \<le> pm_retry_count m"
    using assms(3) by simp_all
  have i: "pm_id m = i" using assms(3) by (rule get_message_id)
  have a: "pm_status m = Failed \<longrightarrow>
            map_option pm_status (get_message (markFailed maxRetries now i ?d) i) = Some Failed"
    using budget by (auto simp: get_message_markFailed assms(3) i)
  have b: "pm_status m \<noteq> Pending \<longrightarrow> get_message (markProcessing now i ?d) i = Some m"
    by (simp add: get_message_markProcessing assms(3) i)
  have c: "pm_status m = Pending \<longrightarrow> get_message (markProcessed now i ?d) i = Some m"
    by (simp add: get_message_markProcessed assms(3) i)
  have e: "pm_status m = Processing \<longrightarrow>
            map_option pm_status (get_message (markFailed maxRetries now i ?d) i)
            = Some (if pm_retry_count m < maxRetries then Pending else Failed)"
    by (simp add: get_message_markFailed assms(3) i)
  from a b c e apply_op_step [OF d assms(3), of maxRetries op] show ?thesis
    by blast
qed

lemma queue_state_machine_instance:
  "map_option pm_status
     (get_message (markFailed 3 2100 1
        (run_ops 3 [MarkProcessing 2010 1, MarkFailed 2020 1, MarkProcessing 2030 1,
                    MarkFailed 2040 1, MarkProcessing 2050 1, MarkFailed 2060 1,
                    MarkProcessing 2070 1, MarkFailed 2080 1] queue_db)) 1) = Some Failed"
proof -
  have e: "enqueue 2000 1 ''S'' job_A session_db = (Inr 1, queue_db)"
    by (simp add: queue_db_def enqueue_def session_db_def createSDKSession_def empty_db_def
        Let_def)
  have d: "distinct (map pm_id (pending_messages session_db))"
    by (simp add: session_db_def createSDKSession_def empty_db_def Let_def)
  have r: "run_ops 3 [MarkProcessing 2010 1, MarkFailed 2020 1, MarkProcessing 2030 1,
                    MarkFailed 2040 1, MarkProcessing 2050 1, MarkFailed 2060 1,
                    MarkProcessing 2070 1, MarkFailed 2080 1] queue_db = exhausted_db"
    by (simp add: exhausted_db_def)
  from queue_state_machine [OF d e, where ops = "[MarkProcessing 2010 1, MarkFailed 2020 1,
         MarkProcessing 2030 1, MarkFailed 2040 1, MarkProcessing 2050 1, MarkFailed 2060 1,
         MarkProcessing 2070 1, MarkFailed 2080 1]" and maxRetries = 3 and now = 2100]
  show ?thesis
    unfolding r by (simp add: exhausted_db_job)
qed

text \<open>
  C2 does not hold of \<^verbatim>\<open>markFailed\<close> on a processed job.  Its two updates select the row
  by id alone, so on the job \<open>A\<close> in the terminal status \<open>processed\<close>, with \<open>retry_count = 0\<close>
  below \<open>maxRetries = 3\<close>, \<^verbatim>\<open>markFailed\<close> moves the job back to \<open>pending\<close> with
  \<open>retry_count = 1\<close>, its payload already erased by \<^verbatim>\<open>markProcessed\<close>.
\<close>

theorem markFailed_revives_processed:
  "map_option (\<lambda>m. (pm_status m, pm_retry_count m, pm_tool_input m, pm_tool_response m))
     (get_message (markProcessed 2020 1 (markProcessing 2010 1 queue_db)) 1)
     = Some (Processed, 0, None, None)
   \<and> map_option (\<lambda>m. (pm_status m, pm_retry_count m, pm_tool_input m, pm_tool_response m))
       (get_message (markFailed 3 2030 1 (markProcessed 2020 1 (markProcessing 2010 1 queue_db))) 1)
     = Some (Pending, 1, None, None)"
  by (simp add: get_message_markFailed get_message_markProcessed get_message_markProcessing
      queue_db_job)

subsection \<open>Recovery of stuck jobs\<close>

lemma sql_lt_iff: "sql_lt col v \<longleftrightarrow> (\<exists>t. col = Some t \<and> t < v)"
  by (cases col) (simp_all add: sql_lt_def)

text \<open>
  C4, as stated, fails: with threshold 0 the cutoff is the current time and the
  comparison is strict.  The job \<open>A\<close>, claimed at time 2010, is still \<open>processing\<close> with
  its start time in place after \<^verbatim>\<open>resetStuckMessages(0)\<close> runs at time 2010.
\<close>

theorem resetStuckMessages_zero_counterexample:
  "map_option (\<lambda>m. (pm_status m, pm_started_processing_at_epoch m))
     (get_message (markProcessing 2010 1 queue_db) 1) = Some (Processing, Some 2010)
   \<and> map_option (\<lambda>m. (pm_status m, pm_started_processing_at_epoch m))
       (get_message (snd (resetStuckMessages 2010 0 (markProcessing 2010 1 queue_db))) 1)
     = Some (Processing, Some 2010)"
  by (simp add: get_message_resetStuckMessages get_message_markProcessing queue_db_job sql_lt_def)

text \<open>
  C4, amended: \<^verbatim>\<open>resetStuckMessages(0)\<close> run at time \<open>now\<close> moves to \<open>pending\<close>, with the
  start time set to null, exactly the jobs that are \<open>processing\<close> with a start time
  strictly before \<open>now\<close>, and returns their number; every other job (any other status,
  or \<open>processing\<close> with a start time that is null, equal to \<open>now\<close> or later) is left
  unchanged.  When all \<open>N\<close> processing jobs started strictly before \<open>now\<close>, all \<open>N\<close> are
  moved and no job is left \<open>processing\<close>.
\<close>

theorem resetStuckMessages_zero:
  "pending_messages (snd (resetStuckMessages now 0 db))
     = map (\<lambda>m. if pm_status m = Processing
                    \<and> (\<exists>t. pm_started_processing_at_epoch m = Some t \<and> t < now)
                 then m\<lparr>pm_status := Pending, pm_started_processing_at_epoch := None\<rparr>
                 else m) (pending_messages db)
   \<and> fst (resetStuckMessages now 0 db)
     = length (filter (\<lambda>m. pm_status m = Processing
                            \<and> (\<exists>t. pm_started_processing_at_epoch m = Some t \<and> t < now))
                      (pending_messages db))
   \<and> ((\<forall>m \<in> set (pending_messages db).
          pm_status m = Processing \<longrightarrow> (\<exists>t. pm_started_processing_at_epoch m = Some t \<and> t < now))
        \<longrightarrow> fst (resetStuckMessages now 0 db)
              = length (filter (\<lambda>m. pm_status m = Processing) (pending_messages db))
          \<and> (\<forall>m \<in> set (pending_messages (snd (resetStuckMessages now 0 db))).
                pm_status m \<noteq> Processing))"
proof -
  let ?stuck = "\<lambda>m. pm_status m = Processing
                    \<and> (\<exists>t. pm_started_processing_at_epoch m = Some t \<and> t < now)"
  have rows: "pending_messages (snd (resetStuckMessages now 0 db))
     = map (\<lambda>m. if ?stuck m
                 then m\<lparr>pm_status := Pending, pm_started_processing_at_epoch := None\<rparr>
                 else m) (pending_messages db)"
    by (simp add: resetStuckMessages_def Let_def sql_update_def sql_lt_iff)
  have count: "fst (resetStuckMessages now 0 db) = length (filter ?stuck (pending_messages db))"
    by (simp add: resetStuckMessages_def Let_def row_count_def sql_lt_iff)
  have all: "fst (resetStuckMessages now 0 db)
              = length (filter (\<lambda>m. pm_status m = Processing) (pending_messages db))
          \<and> (\<forall>m \<in> set (pending_messages (snd (resetStuckMessages now 0 db))).
                pm_status m \<noteq> Processing)"
    if h: "\<forall>m \<in> set (pending_messages db). pm_status m = Processing \<longrightarrow>
             (\<exists>t. pm_started_processing_at_epoch m = Some t \<and> t < now)"
  proof -
    have "filter ?stuck (pending_messages db)
          = filter (\<lambda>m. pm_status m = Processing) (pending_messages db)"
      using h by (intro filter_cong) auto
    with count have c: "fst (resetStuckMessages now 0 db)
              = length (filter (\<lambda>m. pm_status m = Processing) (pending_messages db))"
      by simp
    have "\<forall>m \<in> set (pending_messages (snd (resetStuckMessages now 0 db))). pm_status m \<noteq> Processing"
      unfolding rows using h by auto
    with c show ?thesis by simp
  qed
  from rows count all show ?thesis by blast
qed

theorem resetStuckMessages_zero_witness:
  "map pm_status (pending_messages processing_db) = [Processing]
   \<and> fst (resetStuckMessages 2011 0 processing_db) = 1
   \<and> map (\<lambda>m. (pm_status m, pm_started_processing_at_epoch m))
        (pending_messages (snd (resetStuckMessages 2011 0 processing_db)))
     = [(Pending, None)]"
proof -
  have rows: "pending_messages processing_db
         = [\<lparr>pm_id = 1, pm_session_db_id = 1, pm_claude_session_id = ''S'',
             pm_message_type = Observation, pm_tool_name = Some ''Read'',
             pm_tool_input = Some ''[1]'', pm_tool_response = Some ''[2]'',
             pm_cwd = Some ''/work'', pm_last_user_message = None,
             pm_last_assistant_message = None, pm_prompt_number = Some 1,
             pm_status = Processing, pm_retry_count = 0, pm_created_at_epoch = 2000,
             pm_started_processing_at_epoch = Some 2010, pm_completed_at_epoch = None\<rparr>]"
    by (simp add: processing_db_def markProcessing_def sql_update_def queue_db_def enqueue_def
        session_db_def createSDKSession_def empty_db_def job_A_def Let_def str_or_null_def
        num_or_null_def)
  from resetStuckMessages_zero [of 2011 processing_db]
  show ?thesis
    by (simp add: rows)
qed

subsection \<open>Payload fields\<close>

lemma find_distinct_key:
  assumes "distinct (map key rows)" "find (\<lambda>r. key r = i) rows = Some m"
    "r \<in> set rows" "key r = i"
  shows "r = m"
proof -
  from assms(2) have "m \<in> set rows" "key m = i"
    by (auto simp: find_Some_iff)
  with assms show ?thesis
    by (auto simp: distinct_map dest: inj_onD)
qed

text \<open>
  C9: \<^verbatim>\<open>markProcessed\<close> applied to a processing job sets the status to \<open>processed\<close>,
  records the completion time and sets \<open>tool_input\<close> and \<open>tool_response\<close> to null,
  leaving every other field of the job as it was; applied to a job that is not
  \<open>processing\<close> it leaves the job unchanged (and, ids being unique, the whole database).
  \<^verbatim>\<open>markProcessing\<close>, \<^verbatim>\<open>markFailed\<close>, \<^verbatim>\<open>retryMessage\<close> and \<^verbatim>\<open>resetStuckMessages\<close>, applied
  to any job id, leave the two payload fields of every job as they were.
\<close>

theorem markProcessed_frame:
  assumes "get_message db i = Some m"
  shows "(pm_status m = Processing \<longrightarrow>
            get_message (markProcessed now i db) i
            = Some (m\<lparr>pm_status := Processed, pm_completed_at_epoch := Some now,
                      pm_tool_input := None, pm_tool_response := None\<rparr>))
       \<and> (pm_status m \<noteq> Processing \<longrightarrow> get_message (markProcessed now i db) i = Some m)
       \<and> (pm_status m \<noteq> Processing \<and> distinct (map pm_id (pending_messages db))
            \<longrightarrow> markProcessed now i db = db)
       \<and> (\<forall>db' \<in> {markProcessing t j db, markFailed maxRetries t j db,
                     snd (retryMessage j db), snd (resetStuckMessages t thresholdMs db)}.
             map_option (\<lambda>x. (pm_tool_input x, pm_tool_response x)) (get_message db' i)
             = Some (pm_tool_input m, pm_tool_response m))"
proof -
  have i: "pm_id m = i" using assms by (rule get_message_id)
  have a: "pm_status m = Processing \<longrightarrow>
            get_message (markProcessed now i db) i
            = Some (m\<lparr>pm_status := Processed, pm_completed_at_epoch := Some now,
                      pm_tool_input := None, pm_tool_response := None\<rparr>)"
    by (simp add: get_message_markProcessed assms i)
  have b: "pm_status m \<noteq> Processing \<longrightarrow> get_message (markProcessed now i db) i = Some m"
    by (simp add: get_message_markProcessed assms i)
  have c: "markProcessed now i db = db"
    if "pm_status m \<noteq> Processing" "distinct (map pm_id (pending_messages db))"
  proof -
    have "\<And>r. r \<in> set (pending_messages db) \<Longrightarrow> pm_id r = i \<Longrightarrow> r = m"
      using find_distinct_key [of pm_id "pending_messages db" i m] that(2) assms
      by (simp add: get_message_def)
    then have "sql_update (\<lambda>m. pm_id m = i \<and> pm_status m = Processing)
            (\<lambda>m. m\<lparr>pm_status := Processed, pm_completed_at_epoch := Some now,
                    pm_tool_input := None, pm_tool_response := None\<rparr>)
            (pending_messages db) = pending_messages db"
      unfolding sql_update_def using that(1) by (intro map_idI) auto
    then show ?thesis by (simp add: markProcessed_def)
  qed
  have d1: "map_option (\<lambda>x. (pm_tool_input x, pm_tool_response x))
              (get_message (markProcessing t j db) i) = Some (pm_tool_input m, pm_tool_response m)"
    by (simp add: get_message_markProcessing assms)
  have d2: "map_option (\<lambda>x. (pm_tool_input x, pm_tool_response x))
              (get_message (markFailed maxRetries t j db) i)
            = Some (pm_tool_input m, pm_tool_response m)"
    by (cases "get_message db j") (simp_all add: get_message_markFailed assms)
  have d3: "map_option (\<lambda>x. (pm_tool_input x, pm_tool_response x))
              (get_message (snd (retryMessage j db)) i)
            = Some (pm_tool_input m, pm_tool_response m)"
    by (simp add: get_message_retryMessage assms)
  have d4: "map_option (\<lambda>x. (pm_tool_input x, pm_tool_response x))
              (get_message (snd (resetStuckMessages t thresholdMs db)) i)
            = Some (pm_tool_input m, pm_tool_response m)"
    by (simp add: get_message_resetStuckMessages assms)
  from a b c d1 d2 d3 d4 show ?thesis by blast
qed

theorem markProcessed_frame_witness:
  "get_message (markProcessed 2020 1 processing_db) 1 =
     Some \<lparr>pm_id = 1, pm_session_db_id = 1, pm_claude_session_id = ''S'',
             pm_message_type = Observation, pm_tool_name = Some ''Read'',
             pm_tool_input = None, pm_tool_response = None,
             pm_cwd = Some ''/work'', pm_last_user_message = None,
             pm_last_assistant_message = None, pm_prompt_number = Some 1,
             pm_status = Processed, pm_retry_count = 0, pm_created_at_epoch = 2000,
             pm_started_processing_at_epoch = Some 2010, pm_completed_at_epoch = Some 2020\<rparr>
   \<and> map_option (\<lambda>x. (pm_tool_input x, pm_tool_response x))
        (get_message (markFailed 3 2020 1 processing_db) 1) = Some (Some ''[1]'', Some ''[2]'')
   \<and> markProcessed 2020 1 queue_db = queue_db"
proof -
  have ids: "map pm_id (pending_messages queue_db) = [1]"
    by (simp add: queue_db_def enqueue_def session_db_def createSDKSession_def empty_db_def
        Let_def)
  from markProcessed_frame [OF processing_db_job, of 2020 2020 1 3 0]
       markProcessed_frame [OF queue_db_job, of 2020 2020 1 3 0]
  show ?thesis
    by (simp add: ids)
qed

subsection \<open>Manual retry\<close>

text \<open>
  C10: \<^verbatim>\<open>retryMessage\<close> leaves the \<open>retry_count\<close> of the job as it was.  For a job in the
  terminal status \<open>failed\<close> with \<open>retry_count\<close> at least \<open>maxRetries\<close> it reports a row
  affected and moves the job to \<open>pending\<close> with the start time cleared and nothing else
  changed; the next \<^verbatim>\<open>markFailed\<close> on the job, with or without a \<^verbatim>\<open>markProcessing\<close> before
  it, returns the job to \<open>failed\<close> with the same \<open>retry_count\<close>.
\<close>

theorem retryMessage_keeps_retry_count:
  assumes "get_message db i = Some m"
  shows "map_option pm_retry_count (get_message (snd (retryMessage i db)) i)
           = Some (pm_retry_count m)
       \<and> (pm_status m = Failed \<and> pm_retry_count m \<ge> maxRetries \<longrightarrow>
            fst (retryMessage i db)
          \<and> get_message (snd (retryMessage i db)) i
              = Some (m\<lparr>pm_status := Pending, pm_started_processing_at_epoch := None\<rparr>)
          \<and> map_option (\<lambda>x. (pm_status x, pm_retry_count x))
                (get_message (markFailed maxRetries now i (snd (retryMessage i db))) i)
              = Some (Failed, pm_retry_count m)
          \<and> map_option (\<lambda>x. (pm_status x, pm_retry_count x))
                (get_message (markFailed maxRetries now i
                                (markProcessing t i (snd (retryMessage i db)))) i)
              = Some (Failed, pm_retry_count m))"
proof -
  have i: "pm_id m = i" using assms by (rule get_message_id)
  have "m \<in> set (pending_messages db)"
    using assms by (auto simp: get_message_def find_Some_iff)
  then have r: "pm_status m = Failed \<Longrightarrow> fst (retryMessage i db)"
    using i by (auto simp: retryMessage_def Let_def row_count_def filter_empty_conv)
  show ?thesis
    using r
    by (simp add: get_message_retryMessage get_message_markFailed get_message_markProcessing
        assms i)
qed

theorem retryMessage_keeps_retry_count_witness:
  "map_option (\<lambda>x. (pm_status x, pm_retry_count x)) (get_message exhausted_db 1)
     = Some (Failed, 3)
   \<and> map_option (\<lambda>x. (pm_status x, pm_retry_count x))
        (get_message (snd (retryMessage 1 exhausted_db)) 1) = Some (Pending, 3)
   \<and> map_option (\<lambda>x. (pm_status x, pm_retry_count x))
        (get_message (markFailed 3 2100 1 (snd (retryMessage 1 exhausted_db))) 1)
     = Some (Failed, 3)"
proof -
  from retryMessage_keeps_retry_count [OF exhausted_db_job, of 3 2100 2090]
  show ?thesis
    by (simp add: exhausted_db_job)
qed

section \<open>The session store\<close>

subsection \<open>The timeline window\<close>

lemma timeline_db_observations:
  "observations timeline_db =
     [observation_at 1 10, observation_at 2 20, observation_at 3 30,
      observation_at 4 40, observation_at 5 50]"
  by (simp add: timeline_db_def)

lemma observation_at_sel:
  "ob_created_at_epoch (observation_at i e) = e" "ob_project (observation_at i e) = ''proj''"
  "ob_id (observation_at i e) = i"
  by (simp_all add: observation_at_def)

text \<open>
  C3: with \<open>depthBefore = 2\<close>, \<open>depthAfter = 2\<close> and the anchor epoch 30, on the five
  observations at the epochs 10 to 50, the code returns four observations, those at 20,
  30, 40 and 50, not all five.  The older boundary query includes the anchor (\<^verbatim>\<open><=\<close>) and
  is limited to \<open>depthBefore\<close> rows, so it ends at the first strictly older observation;
  the newer one, which also includes the anchor, is limited to \<open>depthAfter + 1\<close> rows.
\<close>

theorem timeline_depth_two_returns_four:
  "map_sum id (\<lambda>t. map (\<lambda>ob. (ob_id ob, ob_created_at_epoch ob)) (tl_observations t))
     (getTimelineAroundObservation timeline_db (Some 3) 30 2 2 None)
   = Inr [(2, 20), (3, 30), (4, 40), (5, 50)]"
  by (simp add: getTimelineAroundObservation_def timeline_db_observations Let_def
      order_by_asc_def order_by_desc_def project_filter_def truthy_project_def
      observation_at_sel)

subsection \<open>Imports\<close>

text \<open>
  A session, a prompt, and an observation whose title is not null: when the first
  import inserts the row, the second finds it, returns its id with \<open>imported = False\<close>
  and leaves the database as the first import left it.
\<close>

lemma importSdkSession_twice:
  assumes "importSdkSession session db = (Inr r1, db1)" and "imported r1"
  shows "importSdkSession session db1 = (Inr \<lparr>imported = False, row_id = row_id r1\<rparr>, db1)"
  using assms
  by (auto simp: importSdkSession_def Let_def split: list.splits if_splits)

lemma importUserPrompt_twice:
  assumes "importUserPrompt prompt db = (Inr r1, db1)" and "imported r1"
  shows "importUserPrompt prompt db1 = (Inr \<lparr>imported = False, row_id = row_id r1\<rparr>, db1)"
  using assms
  by (auto simp: importUserPrompt_def Let_def split: list.splits if_splits)

lemma importObservation_twice:
  assumes "importObservation obs db = (Inr r1, db1)" and "imported r1"
    and "oi_title obs \<noteq> None"
  shows "importObservation obs db1 = (Inr \<lparr>imported = False, row_id = row_id r1\<rparr>, db1)"
  using assms
  by (auto simp: importObservation_def Let_def sql_eq_def split: list.splits if_splits)

lemma importSdkSession_twice_instance:
  "fst (importSdkSession session_T session_db) = Inr \<lparr>imported = True, row_id = 2\<rparr>
   \<and> importSdkSession session_T (snd (importSdkSession session_T session_db))
     = (Inr \<lparr>imported = False, row_id = 2\<rparr>, snd (importSdkSession session_T session_db))"
proof -
  have e: "fst (importSdkSession session_T session_db) = Inr \<lparr>imported = True, row_id = 2\<rparr>"
    by (simp add: importSdkSession_def session_T_def session_db_def createSDKSession_def
        empty_db_def Let_def session_statuses_def)
  then have "importSdkSession session_T session_db
             = (Inr \<lparr>imported = True, row_id = 2\<rparr>, snd (importSdkSession session_T session_db))"
    by (simp add: prod_eq_iff)
  from importSdkSession_twice [OF this] e show ?thesis
    by simp
qed

lemma importUserPrompt_twice_instance:
  "fst (importUserPrompt first_prompt session_db) = Inr \<lparr>imported = True, row_id = 1\<rparr>
   \<and> importUserPrompt first_prompt (snd (importUserPrompt first_prompt session_db))
     = (Inr \<lparr>imported = False, row_id = 1\<rparr>, snd (importUserPrompt first_prompt session_db))"
proof -
  have e: "fst (importUserPrompt first_prompt session_db) = Inr \<lparr>imported = True, row_id = 1\<rparr>"
    by (simp add: importUserPrompt_def first_prompt_def session_db_def createSDKSession_def
        empty_db_def Let_def)
  then have "importUserPrompt first_prompt session_db
             = (Inr \<lparr>imported = True, row_id = 1\<rparr>, snd (importUserPrompt first_prompt session_db))"
    by (simp add: prod_eq_iff)
  from importUserPrompt_twice [OF this] e show ?thesis
    by simp
qed

lemma importObservation_twice_instance:
  "fst (importObservation titled_observation session_db) = Inr \<lparr>imported = True, row_id = 1\<rparr>
   \<and> importObservation titled_observation (snd (importObservation titled_observation session_db))
     = (Inr \<lparr>imported = False, row_id = 1\<rparr>,
        snd (importObservation titled_observation session_db))"
proof -
  have e: "fst (importObservation titled_observation session_db)
           = Inr \<lparr>imported = True, row_id = 1\<rparr>"
    by (simp add: importObservation_def titled_observation_def session_db_def
        createSDKSession_def empty_db_def Let_def observation_types_def)
  then have "importObservation titled_observation session_db
             = (Inr \<lparr>imported = True, row_id = 1\<rparr>,
                snd (importObservation titled_observation session_db))"
    by (simp add: prod_eq_iff)
  from importObservation_twice [OF this] e show ?thesis
    by (simp add: titled_observation_def)
qed

text \<open>
  C5 does not hold of \<^verbatim>\<open>importObservation\<close> on an observation whose title is null.
  The key lookup compares \<^verbatim>\<open>title = $2\<close> with a null parameter, which no row satisfies,
  so the second import of the same observation inserts a second row and returns
  \<open>imported = True\<close> with a new id.
\<close>

theorem importObservation_null_title_twice:
  "importObservation untitled_observation session_db
     = (Inr \<lparr>imported = True, row_id = 1\<rparr>,
        session_db\<lparr>observations_id_seq := 2,
                   observations := [observation_at 1 10\<lparr>ob_title := None\<rparr>]\<rparr>)
   \<and> importObservation untitled_observation
        (snd (importObservation untitled_observation session_db))
     = (Inr \<lparr>imported = True, row_id = 2\<rparr>,
        session_db\<lparr>observations_id_seq := 3,
                   observations := [observation_at 1 10\<lparr>ob_title := None\<rparr>,
                                    observation_at 2 10\<lparr>ob_title := None\<rparr>]\<rparr>)"
  by (simp add: importObservation_def untitled_observation_def titled_observation_def
      session_db_def createSDKSession_def empty_db_def observation_at_def Let_def sql_eq_def
      observation_types_def num_or_zero_def)

lemma summary_db_first:
  "importSessionSummary (summary_of_prompt 1) session_db
     = (Inr \<lparr>imported = True, row_id = 1\<rparr>, summary_db)"
  by (simp add: summary_db_def importSessionSummary_def summary_of_prompt_def
      session_db_def createSDKSession_def empty_db_def Let_def num_or_zero_def)

text \<open>
  What \<^verbatim>\<open>importSessionSummary\<close> does: the lookup is on the session id alone.  It skips
  the insertion and returns \<open>imported = False\<close> exactly when some summary of that session
  exists, whatever its prompt number, and then returns the id of the first such summary
  and leaves the database unchanged.
\<close>

lemma importSessionSummary_key:
  "((\<exists>res. fst (importSessionSummary summary db) = Inr res \<and> \<not> imported res)
      \<longleftrightarrow> mi_sdk_session_id summary \<in> set (map sm_sdk_session_id (session_summaries db)))
   \<and> (mi_sdk_session_id summary \<in> set (map sm_sdk_session_id (session_summaries db))
        \<longrightarrow> snd (importSessionSummary summary db) = db
          \<and> map_option sm_id
               (find (\<lambda>r. sm_sdk_session_id r = mi_sdk_session_id summary) (session_summaries db))
             = (case fst (importSessionSummary summary db) of
                  Inr res \<Rightarrow> Some (row_id res) | Inl e \<Rightarrow> None))
   \<and> (\<forall>r1 db1 summary'.
         importSessionSummary summary db = (Inr r1, db1) \<and> imported r1
         \<and> mi_sdk_session_id summary' = mi_sdk_session_id summary
         \<longrightarrow> importSessionSummary summary' db1
               = (Inr \<lparr>imported = False, row_id = row_id r1\<rparr>, db1))"
proof -
  let ?P = "\<lambda>r. sm_sdk_session_id r = mi_sdk_session_id summary"
  have mem: "mi_sdk_session_id summary \<in> set (map sm_sdk_session_id (session_summaries db))
             \<longleftrightarrow> filter ?P (session_summaries db) \<noteq> []"
    by (force simp: filter_empty_conv)
  have a: "(\<exists>res. fst (importSessionSummary summary db) = Inr res \<and> \<not> imported res)
      \<longleftrightarrow> mi_sdk_session_id summary \<in> set (map sm_sdk_session_id (session_summaries db))"
    unfolding mem
    by (auto simp: importSessionSummary_def Let_def split: list.splits)
  have b: "snd (importSessionSummary summary db) = db
          \<and> map_option sm_id (find ?P (session_summaries db))
             = (case fst (importSessionSummary summary db) of
                  Inr res \<Rightarrow> Some (row_id res) | Inl e \<Rightarrow> None)"
    if "mi_sdk_session_id summary \<in> set (map sm_sdk_session_id (session_summaries db))"
  proof -
    from that obtain x xs where f: "filter ?P (session_summaries db) = x # xs"
      unfolding mem by (cases "filter ?P (session_summaries db)") auto
    then have "find ?P (session_summaries db) = Some x"
      by (rule filter_Cons_find)
    with f show ?thesis
      by (simp add: importSessionSummary_def)
  qed
  have c: "importSessionSummary summary' db1
               = (Inr \<lparr>imported = False, row_id = row_id r1\<rparr>, db1)"
    if "importSessionSummary summary db = (Inr r1, db1)" "imported r1"
       "mi_sdk_session_id summary' = mi_sdk_session_id summary"
    for r1 db1 summary'
    using that
    by (auto simp: importSessionSummary_def Let_def split: list.splits if_splits)
  from a b c show ?thesis by blast
qed

lemma importSessionSummary_key_instance:
  "fst (importSessionSummary (summary_of_prompt 1) session_db)
     = Inr \<lparr>imported = True, row_id = 1\<rparr>
   \<and> importSessionSummary (summary_of_prompt 3) summary_db
     = (Inr \<lparr>imported = False, row_id = 1\<rparr>, summary_db)"
proof -
  have k: "mi_sdk_session_id (summary_of_prompt 3) = mi_sdk_session_id (summary_of_prompt 1)"
    by (simp add: summary_of_prompt_def)
  note third = importSessionSummary_key [of "summary_of_prompt 1" session_db,
                 THEN conjunct2, THEN conjunct2, rule_format]
  have "importSessionSummary (summary_of_prompt 3) summary_db
        = (Inr \<lparr>imported = False, row_id = row_id \<lparr>imported = True, row_id = 1\<rparr>\<rparr>,
           summary_db)"
    using summary_db_first k by (intro third) simp
  then show ?thesis
    by (simp add: summary_db_first)
qed

text \<open>
  The sibling \<^verbatim>\<open>importUserPrompt\<close> looks up the session and the prompt number: a second
  prompt of the same session is imported.
\<close>

lemma importUserPrompt_second_prompt_imported:
  "fst (importUserPrompt (first_prompt\<lparr>pi_prompt_number := 2\<rparr>)
          (snd (importUserPrompt first_prompt session_db)))
     = Inr \<lparr>imported = True, row_id = 2\<rparr>"
  by (simp add: importUserPrompt_def first_prompt_def session_db_def createSDKSession_def
      empty_db_def Let_def)

text \<open>
  C6 does not hold: two summaries of the same session with different prompt numbers are
  not both imported.  After the summary of prompt 1 of session \<open>S\<close> is imported, the
  import of the summary of prompt 2 of \<open>S\<close> returns \<open>imported = False\<close> with the id of the
  first summary and inserts nothing; the store keeps the summary of prompt 1 only.
\<close>

theorem importSessionSummary_second_prompt_skipped:
  "importSessionSummary (summary_of_prompt 1) session_db
     = (Inr \<lparr>imported = True, row_id = 1\<rparr>, summary_db)
   \<and> importSessionSummary (summary_of_prompt 2) summary_db
     = (Inr \<lparr>imported = False, row_id = 1\<rparr>, summary_db)
   \<and> map (\<lambda>r. (sm_sdk_session_id r, sm_prompt_number r)) (session_summaries summary_db)
     = [(''S'', Some 1)]
   \<and> (mi_sdk_session_id (summary_of_prompt 2), mi_prompt_number (summary_of_prompt 2))
     = (''S'', Some 2)"
  by (simp add: summary_db_first)
     (simp add: summary_db_def importSessionSummary_def summary_of_prompt_def
      session_db_def createSDKSession_def empty_db_def Let_def num_or_zero_def)

subsection \<open>Session creation\<close>

lemma find_filter_case:
  "find P xs = (case filter P xs of [] \<Rightarrow> None | x # _ \<Rightarrow> Some x)"
  by (induction xs) auto

text \<open>
  C7: \<^verbatim>\<open>createSDKSession\<close> is an upsert keyed by the external session id.  When no row
  has the id (and the insert is accepted) the call creates the row, with status
  \<open>active\<close>, the given project and prompt, and returns its id.  When a row has the id,
  the call returns the id of that row, overwrites its user prompt, replaces its project
  only if the stored project is the empty string, and changes nothing else of that row.
  A later call for the same external id returns the id the earlier call returned.
\<close>

theorem createSDKSession_upsert:
  "(get_session db c = None
      \<and> sdk_sessions_id_seq db \<notin> set (map ss_id (sdk_sessions db))
      \<and> Some c \<notin> set (map ss_sdk_session_id (sdk_sessions db))
    \<longrightarrow> fst (createSDKSession now e uid c p u db) = Inr (sdk_sessions_id_seq db)
      \<and> (\<exists>s. get_session (snd (createSDKSession now e uid c p u db)) c = Some s
             \<and> ss_id s = sdk_sessions_id_seq db \<and> ss_status s = ''active''
             \<and> ss_project s = p \<and> ss_user_prompt s = Some u))
   \<and> (\<forall>s. get_session db c = Some s
        \<longrightarrow> fst (createSDKSession now e uid c p u db) = Inr (ss_id s)
          \<and> get_session (snd (createSDKSession now e uid c p u db)) c
              = Some (s\<lparr>ss_project := (if ss_project s = [] then p else ss_project s),
                        ss_user_prompt := Some u\<rparr>))
   \<and> (\<forall>i db1. createSDKSession now e uid c p u db = (Inr i, db1)
        \<longrightarrow> fst (createSDKSession now' e' uid' c p' u' db1) = Inr i)"
proof -
  let ?P = "\<lambda>s. ss_claude_session_id s = c"
  have first: "fst (createSDKSession now e uid c p u db) = Inr (sdk_sessions_id_seq db)
      \<and> (\<exists>s. get_session (snd (createSDKSession now e uid c p u db)) c = Some s
             \<and> ss_id s = sdk_sessions_id_seq db \<and> ss_status s = ''active''
             \<and> ss_project s = p \<and> ss_user_prompt s = Some u)"
    if "get_session db c = None"
       "sdk_sessions_id_seq db \<notin> set (map ss_id (sdk_sessions db))"
       "Some c \<notin> set (map ss_sdk_session_id (sdk_sessions db))"
  proof -
    from that(1) have f: "filter ?P (sdk_sessions db) = []"
      by (simp add: get_session_def find_filter_case split: list.splits)
    then have "c \<notin> set (map ss_claude_session_id (sdk_sessions db))"
      by (force simp: filter_empty_conv)
    with f that(2,3) show ?thesis
      by (simp add: createSDKSession_def Let_def get_session_def find_append_fresh)
  qed
  have later: "fst (createSDKSession now e uid c p u db) = Inr (ss_id s)
          \<and> get_session (snd (createSDKSession now e uid c p u db)) c
              = Some (s\<lparr>ss_project := (if ss_project s = [] then p else ss_project s),
                        ss_user_prompt := Some u\<rparr>)"
    if "get_session db c = Some s" for s now e uid p u db
  proof -
    from that obtain xs where f: "filter ?P (sdk_sessions db) = s # xs"
      by (auto simp: get_session_def find_filter_case split: list.splits)
    have c: "ss_claude_session_id s = c"
      using that by (auto simp: get_session_def find_Some_iff)
    from f c that show ?thesis
      by (simp add: createSDKSession_def Let_def get_session_def find_sql_update)
  qed
  have same: "fst (createSDKSession now' e' uid' c p' u' db1) = Inr i"
    if "createSDKSession now e uid c p u db = (Inr i, db1)" for i db1
  proof (cases "get_session db c")
    case None
    then have f: "filter ?P (sdk_sessions db) = []"
      by (simp add: get_session_def find_filter_case split: list.splits)
    then have nc: "c \<notin> set (map ss_claude_session_id (sdk_sessions db))"
      by (force simp: filter_empty_conv)
    have fresh: "find ?P (sdk_sessions db @ [r])
                 = (if ss_claude_session_id r = c then Some r else None)" for r
      using nc by (rule find_append_fresh)
    from that f have "\<exists>s. get_session db1 c = Some s \<and> ss_id s = i"
      by (auto simp: createSDKSession_def Let_def get_session_def fresh split: if_splits)
    then show ?thesis using later by auto
  next
    case (Some s)
    from later [OF Some, of now e uid p u] that
    have "i = ss_id s" "get_session db1 c
              = Some (s\<lparr>ss_project := (if ss_project s = [] then p else ss_project s),
                        ss_user_prompt := Some u\<rparr>)"
      by simp_all
    then show ?thesis using later [of db1 _ now' e' uid' p' u'] by simp
  qed
  from first later same show ?thesis by blast
qed

theorem createSDKSession_upsert_witness:
  "fst (createSDKSession ''2026-01-01T00:00:00.000Z'' 1000 ''dev'' ''S'' ''proj'' ''hello'' empty_db)
     = Inr 1
   \<and> fst (createSDKSession ''2026-01-02T00:00:00.000Z'' 2000 ''dev'' ''S'' ''other'' ''again''
            session_db) = Inr 1
   \<and> map_option (\<lambda>s. (ss_project s, ss_user_prompt s, ss_status s))
        (get_session (snd (createSDKSession ''2026-01-02T00:00:00.000Z'' 2000 ''dev'' ''S''
                             ''other'' ''again'' session_db)) ''S'')
     = Some (''proj'', Some ''again'', ''active'')"
proof -
  have g: "get_session session_db ''S''
           = Some \<lparr>ss_id = 1, ss_claude_session_id = ''S'', ss_sdk_session_id = Some ''S'',
                   ss_project = ''proj'', ss_user_id = Some ''dev'',
                   ss_user_prompt = Some ''hello'',
                   ss_started_at = ''2026-01-01T00:00:00.000Z'', ss_started_at_epoch = 1000,
                   ss_completed_at = None, ss_completed_at_epoch = None,
                   ss_status = ''active'', ss_worker_port = None, ss_prompt_counter = 0\<rparr>"
    by (simp add: get_session_def session_db_def createSDKSession_def empty_db_def Let_def)
  from createSDKSession_upsert
         [where db = empty_db and c = "''S''" and now = "''2026-01-01T00:00:00.000Z''"
            and e = 1000 and uid = "''dev''" and p = "''proj''" and u = "''hello''"]
       createSDKSession_upsert
         [where db = session_db and c = "''S''" and now = "''2026-01-02T00:00:00.000Z''"
            and e = 2000 and uid = "''dev''" and p = "''other''" and u = "''again''"]
  show ?thesis
    by (simp add: g) (simp add: empty_db_def get_session_def)
qed

section \<open>Replication\<close>

lemma fetched_urls_append: "fetched_urls (xs @ ys) = fetched_urls xs @ fetched_urls ys"
  by (induction xs rule: fetched_urls.induct) simp_all

lemma warnings_append: "warnings (xs @ ys) = warnings xs @ warnings ys"
  by (induction xs rule: warnings.induct) simp_all

lemma replicate_loop_returns:
  "fst (replicate_loop env rk body entityId host k ports) = Inr ()"
  by (induction ports arbitrary: k) (simp_all add: split_beta Let_def)

lemma replicate_loop_fetches:
  "fetched_urls (snd (replicate_loop env rk (Inr json) entityId host k ports))
     = map (endpoint host (rk_path rk)) ports"
proof (induction ports arbitrary: k)
  case Nil
  then show ?case by simp
next
  case (Cons port ports)
  show ?case
    by (cases "env_fetch env k (endpoint host (rk_path rk) port)")
       (simp_all add: split_beta Let_def try_port_def fetched_urls_append Cons)
qed

lemma replicate_loop_warnings:
  "length (warnings (snd (replicate_loop env rk (Inr json) entityId host k ports)))
     = length (filter (\<lambda>(n, port). \<not> fetch_ok (env_fetch env n (endpoint host (rk_path rk) port)))
                      (enumerate k ports))"
proof (induction ports arbitrary: k)
  case Nil
  then show ?case by simp
next
  case (Cons port ports)
  show ?case
    by (cases "env_fetch env k (endpoint host (rk_path rk) port)")
       (simp_all add: split_beta Let_def try_port_def warnings_append Cons
         fetch_ok_def)
qed

lemma replicate_to_secondaries_ok:
  "fst (replicate_to_secondaries env rk body entityId) = Inr ()
   \<and> (getSecondaryPorts env = [] \<longrightarrow> snd (replicate_to_secondaries env rk body entityId) = [])
   \<and> fetched_urls (snd (replicate_to_secondaries env rk (Inr json) entityId))
       = map (endpoint (env_worker_host env) (rk_path rk)) (getSecondaryPorts env)
   \<and> length (warnings (snd (replicate_to_secondaries env rk (Inr json) entityId)))
       = length (filter (\<lambda>(n, port). \<not> fetch_ok (env_fetch env n
                                          (endpoint (env_worker_host env) (rk_path rk) port)))
                        (enumerate 0 (getSecondaryPorts env)))"
  using replicate_loop_warnings [of env rk json entityId "env_worker_host env" 0 "getSecondaryPorts env"]
  by (simp add: replicate_to_secondaries_def Let_def replicate_loop_returns
      replicate_loop_fetches)

text \<open>
  C8: each of \<^verbatim>\<open>replicateSessionInit\<close>, \<^verbatim>\<open>replicateObservation\<close>, \<^verbatim>\<open>replicateSummary\<close> and
  \<^verbatim>\<open>replicateUserPrompt\<close> returns normally whatever the network does and whether or not
  the payload can be serialised.  When the secondary set (the configured ports without
  the primary port) is empty the call does nothing: no fetch, no log entry.  Otherwise
  every secondary port is posted to once, in order, whatever happened at the ports
  before it, and the warnings logged are as many as the ports whose fetch was rejected
  or answered with a status that is not ok.
\<close>

theorem replicate_never_throws:
  "\<forall>(f, path) \<in> {(replicateObservation, ''/api/replicate/observation''),
                  (replicateSummary, ''/api/replicate/summary''),
                  (replicateSessionInit, ''/api/replicate/session''),
                  (replicateUserPrompt, ''/api/replicate/prompt'')}.
      fst (f env body entityId) = Inr ()
      \<and> (getSecondaryPorts env = [] \<longrightarrow> snd (f env body entityId) = [])
      \<and> fetched_urls (snd (f env (Inr json) entityId))
          = map (endpoint (env_worker_host env) path) (getSecondaryPorts env)
      \<and> length (warnings (snd (f env (Inr json) entityId)))
          = length (filter (\<lambda>(n, port). \<not> fetch_ok (env_fetch env n
                                            (endpoint (env_worker_host env) path port)))
                           (enumerate 0 (getSecondaryPorts env)))"
  using replicate_to_secondaries_ok [of env _ body entityId json]
  by (simp add: replicateObservation_def replicateSummary_def replicateSessionInit_def
      replicateUserPrompt_def)

lemma string_of_nat_38888: "string_of_nat 38888 = ''38888''"
  by (simp add: string_of_nat.simps [of 38888] string_of_nat.simps [of 3888]
      string_of_nat.simps [of 388] string_of_nat.simps [of 38] string_of_nat.simps [of 3]
      digit_char_def)

lemma unreachable_env_secondary: "getSecondaryPorts unreachable_env = [38888]"
  by (simp add: getSecondaryPorts_def unreachable_env_def)

lemma replicateObservation_unreachable:
  "replicateObservation unreachable_env (Inr ''{}'') 42
     = (Inr (),
        [FetchPost ''http://127.0.0.1:38888/api/replicate/observation'' ''{}'',
         LogWarn ''REPLICATION'' ''Error replicating observation to port 38888''
           [(''error'', Str ''fetch failed''), (''obsId'', Num 42)]])"
  by (simp add: replicateObservation_def replicate_to_secondaries_def
      unreachable_env_secondary Let_def try_port_def endpoint_def string_of_nat_38888)
     (simp add: unreachable_env_def string_of_nat_38888)

theorem replicate_never_throws_witness:
  "getSecondaryPorts single_env = []
   \<and> replicateSummary single_env (Inr ''{}'') 7 = (Inr (), [])
   \<and> fst (replicateObservation unreachable_env (Inr ''{}'') 42) = Inr ()
   \<and> fetched_urls (snd (replicateObservation unreachable_env (Inr ''{}'') 42))
       = [''http://127.0.0.1:38888/api/replicate/observation'']
   \<and> length (warnings (snd (replicateObservation unreachable_env (Inr ''{}'') 42))) = 1"
proof -
  have s: "getSecondaryPorts single_env = []"
    by (simp add: getSecondaryPorts_def single_env_def)
  have h: "env_worker_host unreachable_env = ''127.0.0.1''"
    by (simp add: unreachable_env_def)
  from replicate_never_throws [of single_env "Inr ''{}''" 7 "''{}''"]
       replicate_never_throws [of unreachable_env "Inr ''{}''" 42 "''{}''"]
  show ?thesis
    by (simp add: s unreachable_env_secondary h endpoint_def string_of_nat_38888
        replicateObservation_unreachable prod_eq_iff)
qed

end
